theory Spec2Isabelle
  imports Complex_Main
begin

section \<open>The persisted tables\<close>

text \<open>
  The edge functions share one Postgres database, reached through the Supabase client.
  Each table is a list of rows (a map where the primary key is the only access path), a row
  is a record of the columns the functions read or write, and a nullable column is an
  \<open>option\<close>. Integer columns are \<open>int\<close>; JavaScript numbers are taken as exact, which
  they are for the integers these columns hold.
\<close>

record school_row =
  s_id :: int
  s_name :: string
  s_code_4digit :: string
  s_address :: "string option"
  s_active :: bool

record class_row =
  c_id :: int
  c_school_id :: int
  c_name :: string
  c_sort_order :: int

record group_row =
  g_id :: int
  g_name :: string
  g_type :: string

record assignment_row =
  a_class_id :: int
  a_group_id :: int

record item_row =
  i_id :: int
  i_group_id :: "int option"
  i_title :: string
  i_price_paise :: int
  i_stock :: "int option"
  i_weight_grams :: "int option"
  i_length_cm :: "int option"
  i_width_cm :: "int option"
  i_height_cm :: "int option"
  i_active :: bool

record order_row =
  o_id :: int
  o_school_id :: "int option"
  o_class_id :: "int option"
  o_parent_phone :: string
  o_parent_name :: "string option"
  o_delivery_type :: "string option"
  o_delivery_address :: "string option"
  o_delivery_charge_paise :: int
  o_items_total_paise :: int
  o_total_amount_paise :: int
  o_payment_id :: "string option"
  o_payment_link :: "string option"
  o_payment_status :: "string option"
  o_status :: "string option"
  o_paid_at :: "string option"
  o_package_count :: "int option"
  o_package_weight_grams :: "int option"
  o_package_volumetric_grams :: "int option"
  o_billed_weight_grams :: "int option"
  o_courier_awb :: "string option"
  o_courier_service :: "string option"

record order_item_row =
  oi_order_id :: int
  oi_item_id :: "int option"
  oi_qty :: "int option"
  oi_unit_price_paise :: int

record parcel_row =
  p_order_id :: int
  p_parcel_index :: int
  p_actual_weight_grams :: int
  p_length_cm :: "int option"
  p_width_cm :: "int option"
  p_height_cm :: "int option"
  p_volumetric_grams :: int
  p_billed_weight_grams :: int
  p_awb :: "string option"

text \<open>
  The payloads kept in the audit log. Of a Razorpay event the handler reads the event
  name, the payment link entity (its id) and the payment entity (its id, its
  \<open>order_id\<close> and the number that \<open>Number(notes.order_id)\<close> gives, absent when
  the note is missing or is not a number). Of a Delhivery payload it reads six fields.
\<close>

record link_entity =
  le_id :: "string option"

record payment_entity =
  pe_id :: "string option"
  pe_order_id :: "string option"
  pe_notes_order_id :: "int option"

record event_json =
  ev_event :: "string option"
  ev_payment_link_entity :: "link_entity option"
  ev_payment_entity :: "payment_entity option"

record courier_payload =
  cp_awb :: "string option"
  cp_waybill :: "string option"
  cp_status :: "string option"
  cp_Status :: "string option"
  cp_status_code :: "string option"
  cp_StatusCode :: "string option"

record delhivery_data =
  dd_package_waybill :: "string option"
  dd_waybill :: "string option"

datatype json_payload =
    RazorpayPayload event_json
  | DelhiveryPayload courier_payload
  | ShipmentPayload delhivery_data

record event_row =
  e_order_id :: "int option"
  e_courier_name :: string
  e_event_type :: "string option"
  e_event_payload :: json_payload

text \<open>
  The conversation context is a JSON object; its keys are the fields below, an absent key
  is \<open>None\<close>. \<open>selected_items\<close> is only ever written as the empty array.
\<close>

record conversation_context =
  ctx_school_id :: "int option"
  ctx_school_name :: "string option"
  ctx_school_code :: "string option"
  ctx_classes :: "class_row list option"
  ctx_selected_items :: "unit list option"
  ctx_class_id :: "int option"
  ctx_class_name :: "string option"
  ctx_category :: "string option"
  ctx_items :: "item_row list option"
  ctx_delivery_type :: "string option"
  ctx_address :: "string option"
  ctx_parent_name :: "string option"

record conversation_row =
  cv_state :: string
  cv_context :: "conversation_context option"
  cv_last_message_at :: string

record message_row =
  m_phone :: "string option"
  m_direction :: string
  m_message_sid :: "string option"

record db =
  schools :: "school_row list"
  classes :: "class_row list"
  groups :: "group_row list"
  class_group_assignments :: "assignment_row list"
  items :: "item_row list"
  settings :: "string \<rightharpoonup> int"
  orders :: "order_row list"
  orders_id_seq :: int
  order_items :: "order_item_row list"
  courier_parcels :: "parcel_row list"
  courier_events :: "event_row list"
  whatsapp_messages :: "message_row list"
  whatsapp_conversations :: "string \<rightharpoonup> conversation_row"

text \<open>
  Every database call and every call to another edge function can fail. \<open>call_site\<close>
  names the places where the source makes such a call; the environment says which of
  them fail during the request at hand.
\<close>

datatype call_site =
    CW_select_order_items | CW_select_settings | CW_update_order | CW_upsert_parcel
  | CO_select_school | CO_select_settings | CO_select_items | CO_insert_order
  | CO_insert_order_items | CO_fetch_compute_weights | CO_update_payment_link
  | RZ_select_by_link | RZ_update_paid | RZ_log_webhook | RZ_fetch_compute_weights
  | RZ_fetch_create_shipment | RZ_select_by_notes | RZ_select_by_payment_id
  | RZ_update_status
  | CS_select_order | CS_fetch_compute_weights | CS_select_parcels | CS_update_order
  | CS_update_parcels | CS_insert_event
  | DW_select_order | DW_insert_event | DW_update_status
  | WA_insert_message | WA_select_conversation | WA_upsert_conversation
  | WA_delete_conversation | WA_select_school | WA_select_classes | WA_select_groups
  | WA_select_assignments | WA_select_items | WA_fetch_create_order

text \<open>
  The environment of one request: which calls fail, the clock, which secrets are
  configured, and what the payment and courier providers answer (\<open>None\<close> when the
  request fails or the answer is not a success).
\<close>

record link_response =
  lr_id :: "string option"
  lr_url :: "string option"

record env =
  fails :: "call_site \<Rightarrow> bool"
  now :: string
  now_ms :: string
  whatsapp_credentials :: bool
  razorpay_keys :: bool
  razorpay_webhook_secret :: bool
  razorpay_link_response :: "link_response option"
  delhivery_api_key :: bool
  delhivery_response :: "delhivery_data option"

text \<open>
  A handler answers with a result or with an error: the 4xx answers of the source by
  name, a 500 with the call that threw or the message of the thrown error.
\<close>

datatype error =
    OrderIdRequired
  | InvalidSchool
  | UnknownItem int
  | InsufficientStock int
  | NoAwb
  | NoParcels
  | InvalidSignature
  | InvalidJson
  | MethodNotAllowed
  | ServerError call_site
  | Thrown string

section \<open>JavaScript values\<close>

text \<open>
  \<open>null\<close> in arithmetic and comparison counts as 0, and \<open>if (x)\<close> on a nullable number
  holds for a number other than 0. \<open>a || d\<close> on a number read from the settings map
  is \<open>d\<close> when the key is absent or the number is 0.
\<close>

definition js_num :: "int option \<Rightarrow> int" where
  "js_num v = (case v of None \<Rightarrow> 0 | Some n \<Rightarrow> n)"

definition truthy :: "int option \<Rightarrow> bool" where
  "truthy v = (case v of None \<Rightarrow> False | Some n \<Rightarrow> n \<noteq> 0)"

definition or_default :: "int option \<Rightarrow> int \<Rightarrow> int" where
  "or_default v d = (if truthy v then js_num v else d)"

text \<open>
  \<open>Math.round\<close> rounds to the nearest integer, a half upwards. Division is taken in
  the reals, exactly.
\<close>

definition math_round :: "real \<Rightarrow> int" where
  "math_round x = \<lfloor>x + 1 / 2\<rfloor>"

definition math_ceil :: "real \<Rightarrow> int" where
  "math_ceil x = \<lceil>x\<rceil>"

section \<open>Weight calculator (compute-weights)\<close>

text \<open>
  The handler reads the order's items joined with the catalog
  (\<open>select("qty, item:items(...)")\<close>): a list of pairs of the quantity and the joined
  item, which is \<open>null\<close> when the order item no longer points to an item.
\<close>

type_synonym joined_item = "int option \<times> item_row option"

record weight_acc =
  totalActualWeight :: int
  maxLength :: int
  maxWidth :: int
  maxHeight :: int

definition weight_step :: "weight_acc \<Rightarrow> joined_item \<Rightarrow> weight_acc" where
  "weight_step acc orderItem =
     (case snd orderItem of
        None \<Rightarrow> acc
      | Some item \<Rightarrow>
          \<lparr> totalActualWeight =
              totalActualWeight acc + js_num (i_weight_grams item) * js_num (fst orderItem),
            maxLength = (if truthy (i_length_cm item)
                         then max (maxLength acc) (js_num (i_length_cm item))
                         else maxLength acc),
            maxWidth = (if truthy (i_width_cm item)
                        then max (maxWidth acc) (js_num (i_width_cm item))
                        else maxWidth acc),
            maxHeight = (if truthy (i_height_cm item)
                         then max (maxHeight acc) (js_num (i_height_cm item))
                         else maxHeight acc) \<rparr>)"

fun weight_loop :: "weight_acc \<Rightarrow> joined_item list \<Rightarrow> weight_acc" where
  "weight_loop acc [] = acc"
| "weight_loop acc (orderItem # rest) = weight_loop (weight_step acc orderItem) rest"

record weights =
  w_package_count :: int
  w_actual_weight_grams :: int
  w_volumetric_grams :: int
  w_billed_weight_grams :: int
  w_length_cm :: int
  w_width_cm :: int
  w_height_cm :: int

definition packagingWeight :: "(string \<rightharpoonup> int) \<Rightarrow> int" where
  "packagingWeight settingsMap = or_default (settingsMap ''default_packaging_weight_grams'') 50"

definition volumetricDivisor :: "(string \<rightharpoonup> int) \<Rightarrow> int" where
  "volumetricDivisor settingsMap = or_default (settingsMap ''volumetric_divisor'') 5000"

definition weightRounding :: "(string \<rightharpoonup> int) \<Rightarrow> int" where
  "weightRounding settingsMap = or_default (settingsMap ''weight_rounding_grams'') 500"

definition volumetric_of :: "int \<Rightarrow> int \<Rightarrow> int \<Rightarrow> int \<Rightarrow> int" where
  "volumetric_of l w h divisor =
     (if l > 0 \<and> w > 0 \<and> h > 0
      then (let volumeCm3 = l * w * h;
                volumetricKg = real_of_int volumeCm3 / real_of_int divisor
            in math_round (volumetricKg * 1000))
      else 0)"

definition billed_of :: "int \<Rightarrow> int \<Rightarrow> int \<Rightarrow> int" where
  "billed_of actual volumetric rounding =
     math_ceil (real_of_int (max actual volumetric) / real_of_int rounding) * rounding"

definition calc_weights :: "(string \<rightharpoonup> int) \<Rightarrow> joined_item list \<Rightarrow> weights" where
  "calc_weights settingsMap orderItems =
     (let acc = weight_loop \<lparr> totalActualWeight = 0, maxLength = 0, maxWidth = 0,
                              maxHeight = 0 \<rparr> orderItems;
          packageCount = 1;
          actualWeight = totalActualWeight acc + packagingWeight settingsMap * packageCount;
          volumetricGrams = volumetric_of (maxLength acc) (maxWidth acc) (maxHeight acc)
                              (volumetricDivisor settingsMap);
          billedWeight = billed_of actualWeight volumetricGrams (weightRounding settingsMap)
      in \<lparr> w_package_count = packageCount,
           w_actual_weight_grams = actualWeight,
           w_volumetric_grams = volumetricGrams,
           w_billed_weight_grams = billedWeight,
           w_length_cm = maxLength acc,
           w_width_cm = maxWidth acc,
           w_height_cm = maxHeight acc \<rparr>)"

text \<open>
  The handler: \<open>order_id\<close> missing or 0 is a 400; each of the four database calls
  throws on error, which the handler turns into a 500. The update addresses the order
  by id. The upsert names no conflict target and gives no primary key, so it adds a
  parcel row.
\<close>

definition select_order_items :: "db \<Rightarrow> int \<Rightarrow> joined_item list" where
  "select_order_items d order_id =
     map (\<lambda>oi. (oi_qty oi,
                case oi_item_id oi of None \<Rightarrow> None
                | Some iid \<Rightarrow> find (\<lambda>i. i_id i = iid) (items d)))
         (filter (\<lambda>oi. oi_order_id oi = order_id) (order_items d))"

definition update_order :: "int \<Rightarrow> (order_row \<Rightarrow> order_row) \<Rightarrow> db \<Rightarrow> db" where
  "update_order order_id f d =
     d\<lparr> orders := map (\<lambda>row. if o_id row = order_id then f row else row) (orders d) \<rparr>"

definition set_weights :: "weights \<Rightarrow> order_row \<Rightarrow> order_row" where
  "set_weights w row =
     row\<lparr> o_package_count := Some (w_package_count w),
        o_package_weight_grams := Some (w_actual_weight_grams w),
        o_package_volumetric_grams := Some (w_volumetric_grams w),
        o_billed_weight_grams := Some (w_billed_weight_grams w) \<rparr>"

definition pos_or_null :: "int \<Rightarrow> int option" where
  "pos_or_null n = (if n > 0 then Some n else None)"

definition parcel_of :: "int \<Rightarrow> weights \<Rightarrow> parcel_row" where
  "parcel_of order_id w =
     \<lparr> p_order_id = order_id, p_parcel_index = 0,
       p_actual_weight_grams = w_actual_weight_grams w,
       p_length_cm = pos_or_null (w_length_cm w),
       p_width_cm = pos_or_null (w_width_cm w),
       p_height_cm = pos_or_null (w_height_cm w),
       p_volumetric_grams = w_volumetric_grams w,
       p_billed_weight_grams = w_billed_weight_grams w,
       p_awb = None \<rparr>"

definition compute_weights :: "env \<Rightarrow> db \<Rightarrow> int option \<Rightarrow> (error + weights) \<times> db" where
  "compute_weights e d order_id =
     (if \<not> truthy order_id then (Inl OrderIdRequired, d)
      else if fails e CW_select_order_items then (Inl (ServerError CW_select_order_items), d)
      else if fails e CW_select_settings then (Inl (ServerError CW_select_settings), d)
      else
        let w = calc_weights (settings d) (select_order_items d (js_num order_id)) in
        if fails e CW_update_order then (Inl (ServerError CW_update_order), d)
        else
          let d1 = update_order (js_num order_id) (set_weights w) d in
          if fails e CW_upsert_parcel then (Inl (ServerError CW_upsert_parcel), d1)
          else (Inr w,
                d1\<lparr> courier_parcels :=
                      courier_parcels d1 @ [parcel_of (js_num order_id) w] \<rparr>))"




text \<open>The spec's scenario: one item of 200 g, 20 x 15 x 2 cm, quantity 2.\<close>

definition scenario_item :: item_row where
  "scenario_item =
     \<lparr> i_id = 1, i_group_id = None, i_title = ''Book'', i_price_paise = 10000,
       i_stock = Some 10, i_weight_grams = Some 200, i_length_cm = Some 20,
       i_width_cm = Some 15, i_height_cm = Some 2, i_active = True \<rparr>"

definition scenario_settings :: "string \<rightharpoonup> int" where
  "scenario_settings =
     [''default_packaging_weight_grams'' \<mapsto> 50, ''volumetric_divisor'' \<mapsto> 5000,
      ''weight_rounding_grams'' \<mapsto> 500]"

section \<open>Order assembler (create-order)\<close>

text \<open>
  \<open>maybeSingle()\<close> gives the row when the query matches one row, \<open>null\<close> when it
  matches none, and an error when it matches several.
\<close>

datatype 'a single = NoRow | OneRow 'a | ManyRows

fun maybeSingle :: "'a list \<Rightarrow> 'a single" where
  "maybeSingle [] = NoRow"
| "maybeSingle [x] = OneRow x"
| "maybeSingle (x # y # rest) = ManyRows"

record create_order_request =
  rq_school_code :: string
  rq_class_id :: "int option"
  rq_items :: "(int \<times> int) list"
  rq_delivery_type :: "string option"
  rq_parent_phone :: string
  rq_parent_name :: "string option"
  rq_address :: "string option"

record create_order_result =
  r_order_id :: int
  r_total_amount_paise :: int
  r_payment_link :: "string option"
  r_razorpay_payment_link_id :: "string option"

definition select_school :: "db \<Rightarrow> string \<Rightarrow> school_row single" where
  "select_school d school_code =
     maybeSingle (filter (\<lambda>s. s_code_4digit s = school_code \<and> s_active s) (schools d))"

text \<open>
  The delivery charge: \<open>??\<close> takes the default only when the key is absent. A failed
  settings query leaves the settings map empty.
\<close>

definition delivery_charge :: "(string \<rightharpoonup> int) \<Rightarrow> string option \<Rightarrow> int" where
  "delivery_charge settingsMap delivery_type =
     (if delivery_type = Some ''school''
      then (case settingsMap ''school_delivery_charge_paise'' of None \<Rightarrow> 5000 | Some v \<Rightarrow> v)
      else (case settingsMap ''home_delivery_charge_paise'' of None \<Rightarrow> 15000 | Some v \<Rightarrow> v))"

definition select_items_in :: "db \<Rightarrow> int list \<Rightarrow> item_row list" where
  "select_items_in d itemIds = filter (\<lambda>i. i_id i \<in> set itemIds) (items d)"

text \<open>
  The validation loop: the requested items in order, each looked up among the loaded
  items; the first one that is missing or short of stock ends the call. An order item
  under construction is the item id, the quantity and the unit price read now.
\<close>

type_synonym order_item_draft = "int \<times> int \<times> int"

fun order_loop ::
  "item_row list \<Rightarrow> (int \<times> int) list \<Rightarrow> int \<Rightarrow> order_item_draft list
   \<Rightarrow> error + (int \<times> order_item_draft list)" where
  "order_loop itemsData [] items_total_paise orderItems = Inr (items_total_paise, orderItems)"
| "order_loop itemsData ((item_id, qty) # rest) items_total_paise orderItems =
     (case find (\<lambda>i. i_id i = item_id) itemsData of
        None \<Rightarrow> Inl (UnknownItem item_id)
      | Some item \<Rightarrow>
          if js_num (i_stock item) < qty then Inl (InsufficientStock item_id)
          else order_loop itemsData rest (items_total_paise + i_price_paise item * qty)
                 (orderItems @ [(item_id, qty, i_price_paise item)]))"

text \<open>The amount of one draft: unit price times quantity.\<close>

definition draft_total :: "order_item_draft \<Rightarrow> int" where
  "draft_total it = snd (snd it) * fst (snd it)"

definition js_str :: "string option \<Rightarrow> string option" where
  "js_str v = (case v of None \<Rightarrow> None | Some x \<Rightarrow> if x = [] then None else Some x)"

definition new_order ::
  "int \<Rightarrow> school_row \<Rightarrow> create_order_request \<Rightarrow> int \<Rightarrow> int \<Rightarrow> order_row" where
  "new_order new_id school rq delivery_charge_paise items_total_paise =
     \<lparr> o_id = new_id,
       o_school_id = Some (s_id school),
       o_class_id = rq_class_id rq,
       o_parent_phone = rq_parent_phone rq,
       o_parent_name = rq_parent_name rq,
       o_delivery_type = rq_delivery_type rq,
       o_delivery_address = js_str (rq_address rq),
       o_delivery_charge_paise = delivery_charge_paise,
       o_items_total_paise = items_total_paise,
       o_total_amount_paise = items_total_paise + delivery_charge_paise,
       o_payment_id = None,
       o_payment_link = None,
       o_payment_status = Some ''pending'',
       o_status = Some ''pending'',
       o_paid_at = None,
       o_package_count = Some 1,
       o_package_weight_grams = None,
       o_package_volumetric_grams = None,
       o_billed_weight_grams = None,
       o_courier_awb = None,
       o_courier_service = None \<rparr>"

definition order_item_of :: "int \<Rightarrow> order_item_draft \<Rightarrow> order_item_row" where
  "order_item_of order_id it =
     \<lparr> oi_order_id = order_id, oi_item_id = Some (fst it), oi_qty = Some (fst (snd it)),
       oi_unit_price_paise = snd (snd it) \<rparr>"

definition insert_order :: "order_row \<Rightarrow> db \<Rightarrow> db" where
  "insert_order row d = d\<lparr> orders := orders d @ [row], orders_id_seq := orders_id_seq d + 1 \<rparr>"

definition insert_order_items :: "order_item_row list \<Rightarrow> db \<Rightarrow> db" where
  "insert_order_items rows d = d\<lparr> order_items := order_items d @ rows \<rparr>"

text \<open>
  After the two inserts the handler calls compute-weights and asks Razorpay for a payment
  link, both best-effort: a failure is logged and the order stays as it is.
\<close>

definition trigger_compute_weights :: "env \<Rightarrow> call_site \<Rightarrow> int \<Rightarrow> db \<Rightarrow> db" where
  "trigger_compute_weights e site order_id d =
     (if fails e site then d else snd (compute_weights e d (Some order_id)))"

definition set_payment_link :: "string option \<Rightarrow> string option \<Rightarrow> order_row \<Rightarrow> order_row" where
  "set_payment_link link_id link row = row\<lparr> o_payment_id := link_id, o_payment_link := link \<rparr>"

definition create_payment_link :: "env \<Rightarrow> int \<Rightarrow> db \<Rightarrow> (string option \<times> string option) \<times> db" where
  "create_payment_link e order_id d =
     (if razorpay_keys e
      then (case razorpay_link_response e of
              None \<Rightarrow> ((None, None), d)
            | Some rLinkJson \<Rightarrow>
                let payment_link = js_str (lr_url rLinkJson);
                    razorpay_payment_link_id = js_str (lr_id rLinkJson)
                in ((payment_link, razorpay_payment_link_id),
                    if fails e CO_update_payment_link then d
                    else update_order order_id
                           (set_payment_link razorpay_payment_link_id payment_link) d))
      else ((None, None), d))"

definition persist_order ::
  "env \<Rightarrow> db \<Rightarrow> school_row \<Rightarrow> create_order_request \<Rightarrow> int \<Rightarrow> int \<Rightarrow> order_item_draft list
   \<Rightarrow> (error + create_order_result) \<times> db" where
  "persist_order e d school rq delivery_charge_paise items_total_paise orderItems =
     (if fails e CO_insert_order then (Inl (ServerError CO_insert_order), d)
      else
        let order = new_order (orders_id_seq d) school rq delivery_charge_paise items_total_paise;
            d1 = insert_order order d
        in if fails e CO_insert_order_items
           then (Inl (ServerError CO_insert_order_items), d1)
           else
             let d2 = insert_order_items (map (order_item_of (o_id order)) orderItems) d1;
                 d3 = trigger_compute_weights e CO_fetch_compute_weights (o_id order) d2;
                 linked = create_payment_link e (o_id order) d3
             in (Inr \<lparr> r_order_id = o_id order,
                        r_total_amount_paise = o_total_amount_paise order,
                        r_payment_link = fst (fst linked),
                        r_razorpay_payment_link_id = snd (fst linked) \<rparr>, snd linked))"

definition assemble ::
  "env \<Rightarrow> db \<Rightarrow> school_row \<Rightarrow> create_order_request \<Rightarrow> (error + create_order_result) \<times> db" where
  "assemble e d school rq =
     (let settingsMap = (if fails e CO_select_settings then Map.empty else settings d);
          delivery_charge_paise = delivery_charge settingsMap (rq_delivery_type rq);
          itemIds = map fst (rq_items rq)
      in if fails e CO_select_items then (Inl (ServerError CO_select_items), d)
         else (case order_loop (select_items_in d itemIds) (rq_items rq) 0 [] of
                 Inl err \<Rightarrow> (Inl err, d)
               | Inr checked \<Rightarrow>
                   persist_order e d school rq delivery_charge_paise (fst checked)
                     (snd checked)))"

definition create_order ::
  "env \<Rightarrow> db \<Rightarrow> create_order_request \<Rightarrow> (error + create_order_result) \<times> db" where
  "create_order e d rq =
     (if fails e CO_select_school then (Inl (ServerError CO_select_school), d)
      else (case select_school d (rq_school_code rq) of
              ManyRows \<Rightarrow> (Inl (ServerError CO_select_school), d)
            | NoRow \<Rightarrow> (Inl InvalidSchool, d)
            | OneRow school \<Rightarrow> assemble e d school rq))"


definition lookup_item :: "db \<Rightarrow> int \<Rightarrow> item_row option" where
  "lookup_item d item_id = find (\<lambda>i. i_id i = item_id) (items d)"

definition in_stock :: "db \<Rightarrow> int \<times> int \<Rightarrow> bool" where
  "in_stock d it =
     (case lookup_item d (fst it) of
        None \<Rightarrow> False
      | Some item \<Rightarrow> \<not> js_num (i_stock item) < snd it)"

section \<open>Strings\<close>

text \<open>
  Strings are lists of 8-bit characters, so the model covers ASCII text; on it
  \<open>toLowerCase\<close> and \<open>toUpperCase\<close> change the 26 letters and nothing else.
  \<open>s.includes(t)\<close> holds when \<open>t\<close> occurs in \<open>s\<close> as a contiguous run.
  \<open>a || b\<close> on strings is \<open>a\<close> unless \<open>a\<close> is absent or empty.
\<close>

definition upper_letters :: string where
  "upper_letters = ''ABCDEFGHIJKLMNOPQRSTUVWXYZ''"

definition lower_letters :: string where
  "lower_letters = ''abcdefghijklmnopqrstuvwxyz''"

definition lower_char :: "char \<Rightarrow> char" where
  "lower_char c = (case map_of (zip upper_letters lower_letters) c of None \<Rightarrow> c | Some l \<Rightarrow> l)"

definition upper_char :: "char \<Rightarrow> char" where
  "upper_char c = (case map_of (zip lower_letters upper_letters) c of None \<Rightarrow> c | Some u \<Rightarrow> u)"

definition toLowerCase :: "string \<Rightarrow> string" where
  "toLowerCase s = map lower_char s"

definition toUpperCase :: "string \<Rightarrow> string" where
  "toUpperCase s = map upper_char s"

fun starts_with :: "string \<Rightarrow> string \<Rightarrow> bool" where
  "starts_with s [] = True"
| "starts_with [] (c # cs) = False"
| "starts_with (x # xs) (c # cs) = (x = c \<and> starts_with xs cs)"

fun str_includes :: "string \<Rightarrow> string \<Rightarrow> bool" where
  "str_includes [] t = (t = [])"
| "str_includes (x # xs) t = (starts_with (x # xs) t \<or> str_includes xs t)"

definition js_or :: "string option \<Rightarrow> string option \<Rightarrow> string option" where
  "js_or a b = (if js_str a = None then b else a)"

definition str_or_empty :: "string option \<Rightarrow> string" where
  "str_or_empty a = (case js_str a of None \<Rightarrow> [] | Some x \<Rightarrow> x)"

datatype http_method = OPTIONS | GET | POST | OTHER_METHOD

section \<open>Courier status mapper (delhivery-webhook)\<close>

definition normalize_status :: "string \<Rightarrow> string option" where
  "normalize_status statusLower =
     (if str_includes statusLower ''picked'' \<or> str_includes statusLower ''pickup''
      then Some ''processing''
      else if str_includes statusLower ''in transit'' \<or> str_includes statusLower ''in_transit''
              \<or> str_includes statusLower ''dispatched'' \<or> str_includes statusLower ''out for delivery''
      then Some ''out_for_delivery''
      else if str_includes statusLower ''delivered''
      then Some ''delivered''
      else if str_includes statusLower ''cancelled'' \<or> str_includes statusLower ''rto''
              \<or> str_includes statusLower ''return''
      then Some ''cancelled''
      else None)"

definition status_text :: "courier_payload \<Rightarrow> string option" where
  "status_text payload =
     js_or (js_or (cp_status payload) (cp_Status payload))
           (js_or (cp_status_code payload) (cp_StatusCode payload))"

definition courier_event :: "int \<Rightarrow> courier_payload \<Rightarrow> event_row" where
  "courier_event order_id payload =
     \<lparr> e_order_id = Some order_id, e_courier_name = ''delhivery'',
       e_event_type = status_text payload, e_event_payload = DelhiveryPayload payload \<rparr>"

definition insert_event :: "event_row \<Rightarrow> db \<Rightarrow> db" where
  "insert_event ev d = d\<lparr> courier_events := courier_events d @ [ev] \<rparr>"

definition set_status :: "string \<Rightarrow> order_row \<Rightarrow> order_row" where
  "set_status st row = row\<lparr> o_status := Some st \<rparr>"

datatype courier_ack = CourierPreflight | OrderNotFound | StatusHandled int "string option"

text \<open>
  The handler for a parsed payload. The order is looked up by \<open>courier_awb\<close>; when none
  is found the handler answers success at once. Otherwise it writes the audit record
  (an error there is only logged), maps the status text, and updates the order when a
  rule matched (an error there is thrown).
\<close>

definition courier_event_received ::
  "env \<Rightarrow> db \<Rightarrow> courier_payload \<Rightarrow> (error + courier_ack) \<times> db" where
  "courier_event_received e d payload =
     (let awb = js_or (cp_awb payload) (cp_waybill payload) in
      if js_str awb = None then (Inl NoAwb, d)
      else if fails e DW_select_order then (Inl (ServerError DW_select_order), d)
      else (case maybeSingle (filter (\<lambda>row. o_courier_awb row = awb) (orders d)) of
              ManyRows \<Rightarrow> (Inl (ServerError DW_select_order), d)
            | NoRow \<Rightarrow> (Inr OrderNotFound, d)
            | OneRow order \<Rightarrow>
                (let d1 = (if fails e DW_insert_event then d
                           else insert_event (courier_event (o_id order) payload) d);
                     statusLower = toLowerCase (str_or_empty (status_text payload))
                 in case normalize_status statusLower of
                      None \<Rightarrow> (Inr (StatusHandled (o_id order) None), d1)
                    | Some newStatus \<Rightarrow>
                        if fails e DW_update_status
                        then (Inl (ServerError DW_update_status), d1)
                        else (Inr (StatusHandled (o_id order) (Some newStatus)),
                              update_order (o_id order) (set_status newStatus) d1))))"

definition delhivery_webhook ::
  "env \<Rightarrow> db \<Rightarrow> http_method \<Rightarrow> courier_payload option \<Rightarrow> (error + courier_ack) \<times> db" where
  "delhivery_webhook e d method body =
     (if method = OPTIONS then (Inr CourierPreflight, d)
      else (case body of
              None \<Rightarrow> (Inl (Thrown ''invalid JSON''), d)
            | Some payload \<Rightarrow> courier_event_received e d payload))"

section \<open>Courier dispatcher (create-shipment)\<close>

record shipment_result =
  sh_order_id :: int
  sh_awb :: string
  sh_mock :: bool

definition mark_shipped :: "string \<Rightarrow> order_row \<Rightarrow> order_row" where
  "mark_shipped awb row =
     row\<lparr> o_courier_awb := Some awb, o_courier_service := Some ''delhivery'',
          o_status := Some ''processing'' \<rparr>"

definition update_parcels :: "int \<Rightarrow> string \<Rightarrow> db \<Rightarrow> db" where
  "update_parcels order_id awb d =
     d\<lparr> courier_parcels :=
          map (\<lambda>p. if p_order_id p = order_id then p\<lparr> p_awb := Some awb \<rparr> else p)
              (courier_parcels d) \<rparr>"

definition store_awb :: "env \<Rightarrow> int \<Rightarrow> string \<Rightarrow> db \<Rightarrow> db" where
  "store_awb e order_id awb d =
     (let d1 = (if fails e CS_update_order then d else update_order order_id (mark_shipped awb) d)
      in if fails e CS_update_parcels then d1 else update_parcels order_id awb d1)"

definition shipment_event :: "int \<Rightarrow> delhivery_data \<Rightarrow> event_row" where
  "shipment_event order_id delhiveryData =
     \<lparr> e_order_id = Some order_id, e_courier_name = ''delhivery'',
       e_event_type = Some ''shipment_created'', e_event_payload = ShipmentPayload delhiveryData \<rparr>"

text \<open>
  Without a billed weight on the order the dispatcher calls compute-weights first and
  throws when that call fails. With no parcel it answers 400. With no API key it makes
  up a tracking id from the clock; otherwise the id is the one Delhivery returns.
\<close>

definition ensure_weights :: "env \<Rightarrow> db \<Rightarrow> order_row \<Rightarrow> error option \<times> db" where
  "ensure_weights e d order =
     (if truthy (o_billed_weight_grams order) then (None, d)
      else if fails e CS_fetch_compute_weights then (Some (Thrown ''fetch failed''), d)
      else (case compute_weights e d (Some (o_id order)) of
              (Inl err, d1) \<Rightarrow> (Some (Thrown ''Failed to compute weights''), d1)
            | (Inr w, d1) \<Rightarrow> (None, d1)))"

definition dispatch :: "env \<Rightarrow> db \<Rightarrow> int \<Rightarrow> (error + shipment_result) \<times> db" where
  "dispatch e d order_id =
     (if fails e CS_select_parcels then (Inl (ServerError CS_select_parcels), d)
      else if filter (\<lambda>p. p_order_id p = order_id) (courier_parcels d) = []
      then (Inl NoParcels, d)
      else if \<not> delhivery_api_key e
      then (let mockAwb = ''MOCK'' @ now_ms e
            in (Inr \<lparr> sh_order_id = order_id, sh_awb = mockAwb, sh_mock = True \<rparr>,
                store_awb e order_id mockAwb d))
      else (case delhivery_response e of
              None \<Rightarrow> (Inl (Thrown ''Delhivery API error''), d)
            | Some delhiveryData \<Rightarrow>
                (case js_str (js_or (dd_package_waybill delhiveryData) (dd_waybill delhiveryData)) of
                   None \<Rightarrow> (Inl (Thrown ''No AWB returned from Delhivery''), d)
                 | Some awb \<Rightarrow>
                     (let d2 = store_awb e order_id awb d;
                          d3 = (if fails e CS_insert_event then d2
                                else insert_event (shipment_event order_id delhiveryData) d2)
                      in (Inr \<lparr> sh_order_id = order_id, sh_awb = awb, sh_mock = False \<rparr>, d3)))))"

definition create_shipment :: "env \<Rightarrow> db \<Rightarrow> int option \<Rightarrow> (error + shipment_result) \<times> db" where
  "create_shipment e d order_id =
     (if \<not> truthy order_id then (Inl OrderIdRequired, d)
      else if fails e CS_select_order then (Inl (ServerError CS_select_order), d)
      else (case maybeSingle (filter (\<lambda>row. o_id row = js_num order_id) (orders d)) of
              NoRow \<Rightarrow> (Inl (ServerError CS_select_order), d)
            | ManyRows \<Rightarrow> (Inl (ServerError CS_select_order), d)
            | OneRow order \<Rightarrow>
                (case ensure_weights e d order of
                   (Some err, d1) \<Rightarrow> (Inl err, d1)
                 | (None, d1) \<Rightarrow> dispatch e d1 (js_num order_id))))"

section \<open>Payment reconciler (razorpay-webhook)\<close>

text \<open>
  What leaves the system during a request, in order: a WhatsApp message posted to the
  Cloud API (recipient and text; the texts are named by what they say and carry the
  values put into them), and the calls to the weight calculator and the dispatcher.
\<close>

datatype wa_text =
    PaymentReceived int int
  | ShipmentCreated int string
  | PaymentFailedNotice int
  | Welcome
  | AskSchoolCode
  | InvalidSchoolCode
  | CodeAccepted string "string list"
  | InvalidClassSelection
  | AskCategory
  | AskCategoryAgain
  | NoItemsForCategory
  | AskDelivery "item_row list"
  | AskDeliveryAgain
  | AskAddress
  | AskConfirm
  | AskConfirmOrStart
  | SomethingWentWrong
  | NoItemsToOrder
  | OrderFailed
  | OrderCreated int int "string option"
  | UnexpectedState

datatype effect =
    WhatsAppPost string wa_text
  | FetchComputeWeights int
  | FetchCreateShipment int

definition strip_plus :: "string \<Rightarrow> string" where
  "strip_plus s = (case s of [] \<Rightarrow> [] | c # cs \<Rightarrow> if c = CHR ''+'' then cs else c # cs)"

text \<open>
  \<open>sendWhatsAppMessage\<close> of the payment webhook: nothing is sent without a phone or
  without the two WhatsApp credentials.
\<close>

definition sendWhatsAppMessage :: "env \<Rightarrow> string option \<Rightarrow> wa_text \<Rightarrow> effect list" where
  "sendWhatsAppMessage e phone message =
     (case js_str phone of
        None \<Rightarrow> []
      | Some ph \<Rightarrow> if \<not> whatsapp_credentials e then [] else [WhatsAppPost (strip_plus ph) message])"

text \<open>
  The order row as the webhook selects it:
  \<open>select("id, parent_phone, total_amount_paise, payment_status")\<close>. The row object
  has these four properties and no other, so reading \<open>orderRow.status\<close> gives
  \<open>undefined\<close>.
\<close>

record order_sel =
  sel_id :: int
  sel_parent_phone :: string
  sel_total_amount_paise :: int
  sel_payment_status :: "string option"

definition select_cols :: "order_row \<Rightarrow> order_sel" where
  "select_cols row =
     \<lparr> sel_id = o_id row, sel_parent_phone = o_parent_phone row,
       sel_total_amount_paise = o_total_amount_paise row,
       sel_payment_status = o_payment_status row \<rparr>"

definition sel_status :: "order_sel \<Rightarrow> string option" where
  "sel_status orderRow = None"

definition razorpay_event :: "int option \<Rightarrow> event_json \<Rightarrow> event_row" where
  "razorpay_event orderId payload =
     \<lparr> e_order_id = orderId, e_courier_name = ''razorpay'',
       e_event_type = js_str (ev_event payload), e_event_payload = RazorpayPayload payload \<rparr>"

definition logWebhook :: "env \<Rightarrow> int option \<Rightarrow> event_json \<Rightarrow> db \<Rightarrow> db" where
  "logWebhook e orderId payload d =
     (if fails e RZ_log_webhook then d else insert_event (razorpay_event orderId payload) d)"

definition mark_paid :: "string \<Rightarrow> order_row \<Rightarrow> order_row" where
  "mark_paid paid_at row =
     row\<lparr> o_payment_status := Some ''paid'', o_status := Some ''confirmed'',
          o_paid_at := Some paid_at \<rparr>"

definition mark_failed :: "order_row \<Rightarrow> order_row" where
  "mark_failed row =
     row\<lparr> o_payment_status := Some ''failed'', o_status := Some ''payment_failed'' \<rparr>"

definition already_paid :: "order_sel \<Rightarrow> bool" where
  "already_paid orderRow \<longleftrightarrow>
     sel_payment_status orderRow = Some ''paid'' \<or> sel_status orderRow = Some ''confirmed''"

definition trigger_create_shipment :: "env \<Rightarrow> int \<Rightarrow> db \<Rightarrow> string option \<times> db" where
  "trigger_create_shipment e order_id d =
     (if fails e RZ_fetch_create_shipment then (None, d)
      else (case create_shipment e d (Some order_id) of
              (Inl err, d1) \<Rightarrow> (None, d1)
            | (Inr shipmentJson, d1) \<Rightarrow> (js_str (Some (sh_awb shipmentJson)), d1)))"

datatype razorpay_ack =
    Preflight | PlainOK | NoMatchingOrder | AlreadyPaid | Processed | NoPaymentEntity
  | Unhandled "string option"

type_synonym razorpay_outcome = "(error + razorpay_ack) \<times> db \<times> effect list"

text \<open>\<open>payment_link.paid\<close>: the order is the one whose \<open>payment_id\<close> is the link id.\<close>

definition select_by_payment_id :: "db \<Rightarrow> string option \<Rightarrow> order_row single" where
  "select_by_payment_id d ref =
     maybeSingle (filter (\<lambda>row. ref \<noteq> None \<and> o_payment_id row = ref) (orders d))"

definition confirm_link_payment :: "env \<Rightarrow> db \<Rightarrow> event_json \<Rightarrow> order_sel \<Rightarrow> razorpay_outcome" where
  "confirm_link_payment e d eventJson orderRow =
     (let d1 = (if fails e RZ_update_paid then d
                else update_order (sel_id orderRow) (mark_paid (now e)) d);
          d2 = logWebhook e (Some (sel_id orderRow)) eventJson d1;
          sent = sendWhatsAppMessage e (Some (sel_parent_phone orderRow))
                   (PaymentReceived (sel_id orderRow) (sel_total_amount_paise orderRow));
          d3 = trigger_compute_weights e RZ_fetch_compute_weights (sel_id orderRow) d2;
          shipped = trigger_create_shipment e (sel_id orderRow) d3;
          sent2 = (case fst shipped of
                     None \<Rightarrow> []
                   | Some awb \<Rightarrow> sendWhatsAppMessage e (Some (sel_parent_phone orderRow))
                                  (ShipmentCreated (sel_id orderRow) awb))
      in (Inr Processed, snd shipped,
          sent @ [FetchComputeWeights (sel_id orderRow), FetchCreateShipment (sel_id orderRow)]
            @ sent2))"

definition payment_link_paid :: "env \<Rightarrow> db \<Rightarrow> event_json \<Rightarrow> razorpay_outcome" where
  "payment_link_paid e d eventJson =
     (case ev_payment_link_entity eventJson of
        None \<Rightarrow> (Inr PlainOK, d, [])
      | Some linkEntity \<Rightarrow>
          if fails e RZ_select_by_link then (Inl (ServerError RZ_select_by_link), d, [])
          else (case select_by_payment_id d (js_str (le_id linkEntity)) of
                  ManyRows \<Rightarrow> (Inl (ServerError RZ_select_by_link), d, [])
                | NoRow \<Rightarrow> (Inr NoMatchingOrder, logWebhook e None eventJson d, [])
                | OneRow row \<Rightarrow>
                    if already_paid (select_cols row)
                    then (Inr AlreadyPaid, logWebhook e (Some (o_id row)) eventJson d, [])
                    else confirm_link_payment e d eventJson (select_cols row)))"

text \<open>
  \<open>payment.captured\<close> and \<open>payment.failed\<close>: the order is looked up by the id in the
  payment's notes, then by the payment's order id against \<open>payment_id\<close>; an error of the
  second query counts as no order.
\<close>

definition find_payment_order :: "env \<Rightarrow> db \<Rightarrow> payment_entity \<Rightarrow> error + order_row option" where
  "find_payment_order e d paymentEntity =
     (let by_notes =
            (if truthy (pe_notes_order_id paymentEntity)
             then (if fails e RZ_select_by_notes then Inl (ServerError RZ_select_by_notes)
                   else (case maybeSingle (filter (\<lambda>row. o_id row
                                                   = js_num (pe_notes_order_id paymentEntity))
                                            (orders d)) of
                           ManyRows \<Rightarrow> Inl (ServerError RZ_select_by_notes)
                         | NoRow \<Rightarrow> Inr None
                         | OneRow row \<Rightarrow> Inr (Some row)))
             else Inr None)
      in case by_notes of
           Inl err \<Rightarrow> Inl err
         | Inr (Some row) \<Rightarrow> Inr (Some row)
         | Inr None \<Rightarrow>
             (if js_str (pe_order_id paymentEntity) = None then Inr None
              else if fails e RZ_select_by_payment_id then Inr None
              else (case select_by_payment_id d (js_str (pe_order_id paymentEntity)) of
                      ManyRows \<Rightarrow> Inr None
                    | NoRow \<Rightarrow> Inr None
                    | OneRow row \<Rightarrow> Inr (Some row))))"

definition apply_payment_event ::
  "env \<Rightarrow> db \<Rightarrow> event_json \<Rightarrow> string \<Rightarrow> order_sel \<Rightarrow> razorpay_outcome" where
  "apply_payment_event e d eventJson eventType orderRow =
     (let updateObj = (if eventType = ''payment.captured'' then mark_paid (now e)
                       else mark_failed);
          d1 = (if fails e RZ_update_status then d
                else update_order (sel_id orderRow) updateObj d);
          d2 = logWebhook e (Some (sel_id orderRow)) eventJson d1;
          sent = (if eventType = ''payment.captured''
                  then sendWhatsAppMessage e (Some (sel_parent_phone orderRow))
                         (PaymentReceived (sel_id orderRow) (sel_total_amount_paise orderRow))
                  else sendWhatsAppMessage e (Some (sel_parent_phone orderRow))
                         (PaymentFailedNotice (sel_id orderRow)))
      in (Inr Processed, d2, sent))"

definition payment_event :: "env \<Rightarrow> db \<Rightarrow> event_json \<Rightarrow> string \<Rightarrow> razorpay_outcome" where
  "payment_event e d eventJson eventType =
     (case ev_payment_entity eventJson of
        None \<Rightarrow> (Inr NoPaymentEntity, logWebhook e None eventJson d, [])
      | Some paymentEntity \<Rightarrow>
          (case find_payment_order e d paymentEntity of
             Inl err \<Rightarrow> (Inl err, d, [])
           | Inr None \<Rightarrow> (Inr NoMatchingOrder, logWebhook e None eventJson d, [])
           | Inr (Some row) \<Rightarrow>
               if eventType = ''payment.captured'' \<and> already_paid (select_cols row)
               then (Inr AlreadyPaid, logWebhook e (Some (o_id row)) eventJson d, [])
               else apply_payment_event e d eventJson eventType (select_cols row)))"

definition process_event :: "env \<Rightarrow> db \<Rightarrow> event_json \<Rightarrow> razorpay_outcome" where
  "process_event e d eventJson =
     (if ev_event eventJson = Some ''payment_link.paid'' then payment_link_paid e d eventJson
      else if ev_event eventJson = Some ''payment.captured''
      then payment_event e d eventJson ''payment.captured''
      else if ev_event eventJson = Some ''payment.failed''
      then payment_event e d eventJson ''payment.failed''
      else (Inr (Unhandled (ev_event eventJson)), logWebhook e None eventJson d, []))"

text \<open>
  The request: its method, whether the signature header matches the HMAC of the body
  under the configured secret, and the body as parsed (\<open>None\<close> when it is not JSON).
\<close>

record razorpay_request =
  rz_method :: http_method
  rz_signature_ok :: bool
  rz_body :: "event_json option"

definition razorpay_webhook :: "env \<Rightarrow> db \<Rightarrow> razorpay_request \<Rightarrow> razorpay_outcome" where
  "razorpay_webhook e d req =
     (if rz_method req = OPTIONS then (Inr Preflight, d, [])
      else if rz_method req \<noteq> POST then (Inl MethodNotAllowed, d, [])
      else if razorpay_webhook_secret e \<and> \<not> rz_signature_ok req then (Inl InvalidSignature, d, [])
      else (case rz_body req of
              None \<Rightarrow> (Inl InvalidJson, d, [])
            | Some eventJson \<Rightarrow> process_event e d eventJson))"

definition delivered :: "event_json \<Rightarrow> razorpay_request" where
  "delivered eventJson = \<lparr> rz_method = POST, rz_signature_ok = True, rz_body = Some eventJson \<rparr>"

section \<open>Conversation engine (whatsapp-webhook)\<close>

text \<open>
  \<open>trim\<close> drops white space at both ends; \<open>/^\d{4}$/\<close> accepts exactly four
  digits; \<open>parseInt(s, 10)\<close> reads an optional sign and the longest run of digits
  that follows, and gives \<open>NaN\<close> (here \<open>None\<close>) when there is none.
\<close>

definition is_space :: "char \<Rightarrow> bool" where
  "is_space c \<longleftrightarrow> c \<in> set [CHR '' '', CHR 0x09, CHR 0x0A, CHR 0x0B, CHR 0x0C, CHR 0x0D]"

definition trim :: "string \<Rightarrow> string" where
  "trim s = rev (dropWhile is_space (rev (dropWhile is_space s)))"

definition digit_of :: "char \<Rightarrow> int option" where
  "digit_of c = map_of (zip ''0123456789'' [0, 1, 2, 3, 4, 5, 6, 7, 8, 9]) c"

definition is_digit :: "char \<Rightarrow> bool" where
  "is_digit c \<longleftrightarrow> digit_of c \<noteq> None"

definition four_digits :: "string \<Rightarrow> bool" where
  "four_digits s \<longleftrightarrow> length s = 4 \<and> list_all is_digit s"

definition digits_value :: "string \<Rightarrow> int" where
  "digits_value ds = foldl (\<lambda>acc c. 10 * acc + (case digit_of c of None \<Rightarrow> 0 | Some v \<Rightarrow> v)) 0 ds"

definition parseInt :: "string \<Rightarrow> int option" where
  "parseInt s =
     (let negative = (take 1 s = ''-'');
          unsigned = (if take 1 s = ''-'' \<or> take 1 s = ''+'' then drop 1 s else s);
          ds = takeWhile is_digit unsigned
      in if ds = [] then None
         else Some (if negative then - digits_value ds else digits_value ds))"

text \<open>The sender's phone without a leading \<open>whatsapp:\<close>, in any case, and without a leading plus.\<close>

definition normalize_phone :: "string \<Rightarrow> string" where
  "normalize_phone sender =
     strip_plus (if toLowerCase (take 9 sender) = ''whatsapp:'' then drop 9 sender else sender)"

text \<open>
  \<open>sendWhatsAppMessage\<close> of this handler: without the two credentials the message is
  only written to the console.
\<close>

definition wa_send :: "env \<Rightarrow> string \<Rightarrow> wa_text \<Rightarrow> effect list" where
  "wa_send e phone message =
     (if \<not> whatsapp_credentials e then [] else [WhatsAppPost (normalize_phone phone) message])"

definition log_message :: "env \<Rightarrow> string option \<Rightarrow> string option \<Rightarrow> db \<Rightarrow> db" where
  "log_message e phone sid d =
     (if fails e WA_insert_message then d
      else d\<lparr> whatsapp_messages :=
                whatsapp_messages d
                @ [\<lparr> m_phone = phone, m_direction = ''in'', m_message_sid = sid \<rparr>] \<rparr>)"

definition empty_context :: conversation_context where
  "empty_context =
     \<lparr> ctx_school_id = None, ctx_school_name = None, ctx_school_code = None,
       ctx_classes = None, ctx_selected_items = None, ctx_class_id = None,
       ctx_class_name = None, ctx_category = None, ctx_items = None,
       ctx_delivery_type = None, ctx_address = None, ctx_parent_name = None \<rparr>"

text \<open>
  The conversation as the handler loads it; none, or a failed query, gives the initial
  state and the empty context. An empty state string counts as none.
\<close>

definition load_conversation :: "env \<Rightarrow> db \<Rightarrow> string \<Rightarrow> conversation_row option" where
  "load_conversation e d phone =
     (if fails e WA_select_conversation then None else whatsapp_conversations d phone)"

definition state_of :: "conversation_row option \<Rightarrow> string" where
  "state_of conversation =
     (case conversation of
        None \<Rightarrow> ''AWAIT_CODE''
      | Some c \<Rightarrow> if cv_state c = [] then ''AWAIT_CODE'' else cv_state c)"

definition context_of :: "conversation_row option \<Rightarrow> conversation_context" where
  "context_of conversation =
     (case conversation of
        None \<Rightarrow> empty_context
      | Some c \<Rightarrow> (case cv_context c of None \<Rightarrow> empty_context | Some ctx \<Rightarrow> ctx))"

text \<open>
  \<open>saveState\<close> merges the new keys over the stored context and upserts the row; the
  merge is the function that sets the new keys.
\<close>

definition saveState ::
  "env \<Rightarrow> string \<Rightarrow> conversation_row option \<Rightarrow> string
   \<Rightarrow> (conversation_context \<Rightarrow> conversation_context) \<Rightarrow> db \<Rightarrow> db" where
  "saveState e phone conversation newState newContext d =
     (if fails e WA_upsert_conversation then d
      else d\<lparr> whatsapp_conversations :=
                (whatsapp_conversations d)
                  (phone \<mapsto> \<lparr> cv_state = newState,
                              cv_context = Some (newContext (context_of conversation)),
                              cv_last_message_at = now e \<rparr>) \<rparr>)"

definition delete_conversation :: "env \<Rightarrow> string \<Rightarrow> db \<Rightarrow> db" where
  "delete_conversation e phone d =
     (if fails e WA_delete_conversation then d
      else d\<lparr> whatsapp_conversations := (whatsapp_conversations d)(phone := None) \<rparr>)"

type_synonym wa_outcome = "db \<times> effect list"

definition wa_select_school :: "env \<Rightarrow> db \<Rightarrow> string \<Rightarrow> school_row option" where
  "wa_select_school e d code =
     (if fails e WA_select_school then None
      else (case select_school d code of OneRow school \<Rightarrow> Some school | NoRow \<Rightarrow> None
            | ManyRows \<Rightarrow> None))"

definition wa_select_classes :: "env \<Rightarrow> db \<Rightarrow> int \<Rightarrow> class_row list option" where
  "wa_select_classes e d school_id =
     (if fails e WA_select_classes then None
      else Some (sort_key c_sort_order (filter (\<lambda>c. c_school_id c = school_id) (classes d))))"

definition await_code :: "env \<Rightarrow> db \<Rightarrow> string \<Rightarrow> conversation_row option \<Rightarrow> string \<Rightarrow> wa_outcome" where
  "await_code e d phone conversation body =
     (if \<not> four_digits body then (d, wa_send e phone AskSchoolCode)
      else (case wa_select_school e d body of
              None \<Rightarrow> (d, wa_send e phone InvalidSchoolCode)
            | Some school \<Rightarrow>
                (let classes = wa_select_classes e d (s_id school)
                 in (saveState e phone conversation ''AWAIT_CLASS''
                       (\<lambda>ctx. ctx\<lparr> ctx_school_id := Some (s_id school),
                                   ctx_school_name := Some (s_name school),
                                   ctx_school_code := Some (s_code_4digit school),
                                   ctx_classes := classes,
                                   ctx_selected_items := Some [] \<rparr>) d,
                     wa_send e phone
                       (CodeAccepted (s_name school)
                          (map c_name (case classes of None \<Rightarrow> [] | Some cs \<Rightarrow> cs)))))))"

definition chosen_class :: "conversation_context \<Rightarrow> string \<Rightarrow> class_row option" where
  "chosen_class ctx body =
     (case ctx_classes ctx of
        None \<Rightarrow> None
      | Some cs \<Rightarrow>
          (case parseInt body of
             None \<Rightarrow> None
           | Some n \<Rightarrow> if n - 1 < 0 \<or> n - 1 \<ge> int (length cs) then None
                       else Some (cs ! nat (n - 1))))"

definition await_class :: "env \<Rightarrow> db \<Rightarrow> string \<Rightarrow> conversation_row option \<Rightarrow> string \<Rightarrow> wa_outcome" where
  "await_class e d phone conversation body =
     (case chosen_class (context_of conversation) body of
        None \<Rightarrow> (d, wa_send e phone InvalidClassSelection)
      | Some chosen \<Rightarrow>
          (saveState e phone conversation ''AWAIT_CATEGORY''
             (\<lambda>ctx. ctx\<lparr> ctx_class_id := Some (c_id chosen),
                         ctx_class_name := Some (c_name chosen) \<rparr>) d,
           wa_send e phone AskCategory))"

definition available_groups :: "env \<Rightarrow> db \<Rightarrow> string \<Rightarrow> int option \<Rightarrow> group_row list" where
  "available_groups e d category class_id =
     (let groups = (if fails e WA_select_groups then []
                    else filter (\<lambda>g. g_type g = category) (groups d));
          assignedIds = (if fails e WA_select_assignments then []
                         else map a_group_id
                                (filter (\<lambda>a. Some (a_class_id a) = class_id)
                                   (class_group_assignments d)))
      in filter (\<lambda>g. g_id g \<in> set assignedIds) groups)"

definition wa_select_items :: "env \<Rightarrow> db \<Rightarrow> int \<Rightarrow> item_row list" where
  "wa_select_items e d groupId =
     (if fails e WA_select_items then []
      else filter (\<lambda>i. i_group_id i = Some groupId \<and> i_active i) (items d))"

definition await_category :: "env \<Rightarrow> db \<Rightarrow> string \<Rightarrow> conversation_row option \<Rightarrow> string \<Rightarrow> wa_outcome" where
  "await_category e d phone conversation body =
     (if body \<noteq> ''1'' \<and> body \<noteq> ''2'' then (d, wa_send e phone AskCategoryAgain)
      else
        (let category = (if body = ''1'' then ''books'' else ''stationery'')
         in case available_groups e d category (ctx_class_id (context_of conversation)) of
              [] \<Rightarrow> (d, wa_send e phone NoItemsForCategory)
            | g # rest \<Rightarrow>
                (let its = wa_select_items e d (g_id g)
                 in (saveState e phone conversation ''AWAIT_DELIVERY''
                       (\<lambda>ctx. ctx\<lparr> ctx_category := Some category, ctx_items := Some its,
                                   ctx_selected_items := Some [] \<rparr>) d,
                     wa_send e phone (AskDelivery (take 5 its))))))"

definition await_delivery :: "env \<Rightarrow> db \<Rightarrow> string \<Rightarrow> conversation_row option \<Rightarrow> string \<Rightarrow> wa_outcome" where
  "await_delivery e d phone conversation body =
     (if body \<noteq> ''1'' \<and> body \<noteq> ''2'' then (d, wa_send e phone AskDeliveryAgain)
      else
        (let delivery_type = (if body = ''1'' then ''school'' else ''home'');
             nextState = (if delivery_type = ''home'' then ''AWAIT_ADDRESS'' else ''AWAIT_CONFIRM'')
         in (saveState e phone conversation nextState
               (\<lambda>ctx. ctx\<lparr> ctx_delivery_type := Some delivery_type \<rparr>) d,
             wa_send e phone (if delivery_type = ''home'' then AskAddress else AskConfirm))))"

definition await_address :: "env \<Rightarrow> db \<Rightarrow> string \<Rightarrow> conversation_row option \<Rightarrow> string \<Rightarrow> wa_outcome" where
  "await_address e d phone conversation body =
     (saveState e phone conversation ''AWAIT_CONFIRM'' (\<lambda>ctx. ctx\<lparr> ctx_address := Some body \<rparr>) d,
      wa_send e phone AskConfirm)"

text \<open>
  On CONFIRM the first three items of the context are ordered, one of each, through the
  order assembler. A call that cannot be made ends the request without a message; a
  rejected order is reported and the conversation stays; an accepted one is reported
  and the conversation is deleted.
\<close>

definition order_request :: "string \<Rightarrow> conversation_context \<Rightarrow> create_order_request" where
  "order_request phone ctx =
     \<lparr> rq_school_code = str_or_empty (ctx_school_code ctx),
       rq_class_id = ctx_class_id ctx,
       rq_items = map (\<lambda>it. (i_id it, 1))
                    (take 3 (case ctx_items ctx of None \<Rightarrow> [] | Some its \<Rightarrow> its)),
       rq_delivery_type = ctx_delivery_type ctx,
       rq_parent_phone = phone,
       rq_parent_name = ctx_parent_name ctx,
       rq_address = ctx_address ctx \<rparr>"

definition await_confirm :: "env \<Rightarrow> db \<Rightarrow> string \<Rightarrow> conversation_row option \<Rightarrow> string \<Rightarrow> wa_outcome" where
  "await_confirm e d phone conversation body =
     (let ctx = context_of conversation in
      if toUpperCase body \<noteq> ''CONFIRM'' then (d, wa_send e phone AskConfirmOrStart)
      else if js_str (ctx_school_code ctx) = None then (d, wa_send e phone SomethingWentWrong)
      else if rq_items (order_request phone ctx) = [] then (d, wa_send e phone NoItemsToOrder)
      else if fails e WA_fetch_create_order then (d, [])
      else (case create_order e d (order_request phone ctx) of
              (Inl err, d1) \<Rightarrow> (d1, wa_send e phone OrderFailed)
            | (Inr orderData, d1) \<Rightarrow>
                (delete_conversation e phone d1,
                 wa_send e phone
                   (OrderCreated (r_order_id orderData) (r_total_amount_paise orderData)
                      (r_payment_link orderData)))))"

definition state_machine :: "env \<Rightarrow> db \<Rightarrow> string \<Rightarrow> conversation_row option \<Rightarrow> string \<Rightarrow> wa_outcome" where
  "state_machine e d phone conversation body =
     (let state = state_of conversation in
      if state = ''AWAIT_CODE'' then await_code e d phone conversation body
      else if state = ''AWAIT_CLASS'' then await_class e d phone conversation body
      else if state = ''AWAIT_CATEGORY'' then await_category e d phone conversation body
      else if state = ''AWAIT_DELIVERY'' then await_delivery e d phone conversation body
      else if state = ''AWAIT_ADDRESS'' then await_address e d phone conversation body
      else if state = ''AWAIT_CONFIRM'' then await_confirm e d phone conversation body
      else (d, wa_send e phone UnexpectedState))"

definition handle_message :: "env \<Rightarrow> db \<Rightarrow> string \<Rightarrow> string \<Rightarrow> string \<Rightarrow> wa_outcome" where
  "handle_message e d sender bodyText messageSid =
     (let body = trim bodyText in
      if sender = [] \<or> body = []
      then (log_message e (js_str (Some sender)) (js_str (Some messageSid)) d, [])
      else
        (let normalizedPhone = normalize_phone sender;
             d1 = log_message e (Some normalizedPhone) (js_str (Some messageSid)) d;
             conversation = load_conversation e d1 normalizedPhone
         in if toUpperCase body = ''START''
            then (delete_conversation e normalizedPhone d1, wa_send e normalizedPhone Welcome)
            else state_machine e d1 normalizedPhone conversation body))"

text \<open>
  The request: a preflight, Meta's verification call (with whether mode, token and
  challenge pass), a JSON body without a message, or a message with its sender, text
  and id.
\<close>

datatype wa_request =
    WaOptions
  | WaVerify bool
  | WaNoMessage
  | WaMessage string string string

datatype wa_response = WaPreflight | WaChallenge | WaForbidden | WaOK

definition whatsapp_webhook :: "env \<Rightarrow> db \<Rightarrow> wa_request \<Rightarrow> wa_response \<times> db \<times> effect list" where
  "whatsapp_webhook e d req =
     (case req of
        WaOptions \<Rightarrow> (WaPreflight, d, [])
      | WaVerify ok \<Rightarrow> (if ok then WaChallenge else WaForbidden, d, [])
      | WaNoMessage \<Rightarrow> (WaOK, log_message e None None d, [])
      | WaMessage sender bodyText messageSid \<Rightarrow>
          (WaOK, handle_message e d sender bodyText messageSid))"

text \<open>
  The validator of each state, as the handler applies it: what the message must be for
  the state to advance. No message is valid in a state the machine does not know.
\<close>

definition valid_input :: "env \<Rightarrow> db \<Rightarrow> conversation_row option \<Rightarrow> string \<Rightarrow> bool" where
  "valid_input e d conversation body \<longleftrightarrow>
     (let state = state_of conversation; ctx = context_of conversation in
      if state = ''AWAIT_CODE'' then four_digits body \<and> wa_select_school e d body \<noteq> None
      else if state = ''AWAIT_CLASS'' then chosen_class ctx body \<noteq> None
      else if state = ''AWAIT_CATEGORY''
      then (body = ''1'' \<or> body = ''2'')
           \<and> available_groups e d (if body = ''1'' then ''books'' else ''stationery'')
                (ctx_class_id ctx) \<noteq> []
      else if state = ''AWAIT_DELIVERY'' then body = ''1'' \<or> body = ''2''
      else if state = ''AWAIT_ADDRESS'' then True
      else if state = ''AWAIT_CONFIRM'' then toUpperCase body = ''CONFIRM''
      else False)"


text \<open>A status text contains a word, whatever the case of its letters.\<close>

definition mentions :: "string \<Rightarrow> string \<Rightarrow> bool" where
  "mentions t word \<longleftrightarrow> (\<exists>before after. toLowerCase t = before @ word @ after)"

definition courier_resolves :: "db \<Rightarrow> courier_payload \<Rightarrow> order_row \<Rightarrow> bool" where
  "courier_resolves d payload order \<longleftrightarrow>
     js_str (js_or (cp_awb payload) (cp_waybill payload)) \<noteq> None
     \<and> filter (\<lambda>row. o_courier_awb row = js_or (cp_awb payload) (cp_waybill payload)) (orders d)
         = [order]"

definition courier_unresolved :: "db \<Rightarrow> courier_payload \<Rightarrow> bool" where
  "courier_unresolved d payload \<longleftrightarrow>
     js_str (js_or (cp_awb payload) (cp_waybill payload)) \<noteq> None
     \<and> filter (\<lambda>row. o_courier_awb row = js_or (cp_awb payload) (cp_waybill payload)) (orders d)
         = []"

text \<open>The four groups of words of the rule set.\<close>

definition pickup_text :: "string \<Rightarrow> bool" where
  "pickup_text t \<longleftrightarrow> mentions t ''picked'' \<or> mentions t ''pickup''"

definition transit_text :: "string \<Rightarrow> bool" where
  "transit_text t \<longleftrightarrow>
     mentions t ''in transit'' \<or> mentions t ''in_transit'' \<or> mentions t ''dispatched''
     \<or> mentions t ''out for delivery''"

definition delivered_text :: "string \<Rightarrow> bool" where
  "delivered_text t \<longleftrightarrow> mentions t ''delivered''"

definition cancel_text :: "string \<Rightarrow> bool" where
  "cancel_text t \<longleftrightarrow> mentions t ''cancelled'' \<or> mentions t ''rto'' \<or> mentions t ''return''"

text \<open>
  A request that passes the method check, the signature check and the parser, and so
  delivers its event to the handler proper.
\<close>

definition accepted :: "env \<Rightarrow> razorpay_request \<Rightarrow> event_json \<Rightarrow> bool" where
  "accepted e req eventJson \<longleftrightarrow>
     rz_method req = POST \<and> (rz_signature_ok req \<or> \<not> razorpay_webhook_secret e)
     \<and> rz_body req = Some eventJson"

text \<open>
  A payment event whose reference resolves to no order: a paid payment link whose id is
  no order's \<open>payment_id\<close>, or a captured or failed payment for which both lookups
  find nothing.
\<close>

definition payment_unresolved :: "env \<Rightarrow> db \<Rightarrow> event_json \<Rightarrow> bool" where
  "payment_unresolved e d eventJson \<longleftrightarrow>
     (if ev_event eventJson = Some ''payment_link.paid''
      then (case ev_payment_link_entity eventJson of
              None \<Rightarrow> False
            | Some linkEntity \<Rightarrow>
                \<not> fails e RZ_select_by_link
                \<and> select_by_payment_id d (js_str (le_id linkEntity)) = NoRow)
      else if ev_event eventJson = Some ''payment.captured''
              \<or> ev_event eventJson = Some ''payment.failed''
      then (case ev_payment_entity eventJson of
              None \<Rightarrow> False
            | Some paymentEntity \<Rightarrow> find_payment_order e d paymentEntity = Inr None)
      else False)"

text \<open>
  A later state of the database in which every order has kept its id, its payment
  reference and its payment status.
\<close>

definition keeps_payment :: "db \<Rightarrow> db \<Rightarrow> bool" where
  "keeps_payment d d' \<longleftrightarrow>
     (\<exists>g. orders d' = map g (orders d)
          \<and> (\<forall>row. o_id (g row) = o_id row \<and> o_payment_id (g row) = o_payment_id row
                   \<and> o_payment_status (g row) = o_payment_status row))"


text \<open>
  What is persisted under an order id: the order's three amounts (items total, delivery
  charge, total), and its order items.
\<close>

definition amounts_of :: "order_row \<Rightarrow> int \<times> int \<times> int" where
  "amounts_of row = (o_items_total_paise row, o_delivery_charge_paise row, o_total_amount_paise row)"



definition line_total :: "order_item_row \<Rightarrow> int" where
  "line_total oi = oi_unit_price_paise oi * js_num (oi_qty oi)"


definition no_faults :: "call_site \<Rightarrow> bool" where
  "no_faults site = False"

definition scenario_env :: env where
  "scenario_env =
     \<lparr> fails = no_faults, now = ''2025-01-01T00:00:00.000Z'', now_ms = ''1735689600000'',
       whatsapp_credentials = True,
       razorpay_keys = False, razorpay_webhook_secret = False,
       razorpay_link_response = None, delhivery_api_key = False,
       delhivery_response = None \<rparr>"

definition empty_db :: db where
  "empty_db =
     \<lparr> schools = [], classes = [], groups = [], class_group_assignments = [], items = [],
       settings = Map.empty, orders = [], orders_id_seq = 1, order_items = [],
       courier_parcels = [], courier_events = [], whatsapp_messages = [],
       whatsapp_conversations = Map.empty \<rparr>"


definition scenario_weights :: weights where
  "scenario_weights =
     \<lparr> w_package_count = 1, w_actual_weight_grams = 450, w_volumetric_grams = 120,
       w_billed_weight_grams = 500, w_length_cm = 20, w_width_cm = 15, w_height_cm = 2 \<rparr>"

text \<open>A shop with one active school and the one item, and three requests.\<close>

definition shop_db :: db where
  "shop_db =
     empty_db\<lparr> schools := [\<lparr> s_id = 1, s_name = ''Hill School'', s_code_4digit = ''1234'',
                              s_address = Some ''1 Hill Road'', s_active = True \<rparr>],
               classes := [\<lparr> c_id = 1, c_school_id = 1, c_name = ''Class 1'', c_sort_order = 0 \<rparr>],
               items := [scenario_item],
               settings := scenario_settings \<rparr>"

definition request_for :: "(int \<times> int) list \<Rightarrow> create_order_request" where
  "request_for its =
     \<lparr> rq_school_code = ''1234'', rq_class_id = Some 1, rq_items = its,
       rq_delivery_type = Some ''school'', rq_parent_phone = ''919999999999'',
       rq_parent_name = None, rq_address = None \<rparr>"

definition items_insert_fails :: "call_site \<Rightarrow> bool" where
  "items_insert_fails site = (site = CO_insert_order_items)"

text \<open>An order that was paid for, its payment link, and events about it.\<close>

definition order7 :: order_row where
  "order7 =
     \<lparr> o_id = 7, o_school_id = Some 1, o_class_id = Some 1, o_parent_phone = ''+919999999999'',
       o_parent_name = None, o_delivery_type = Some ''school'', o_delivery_address = None,
       o_delivery_charge_paise = 5000, o_items_total_paise = 20000,
       o_total_amount_paise = 25000, o_payment_id = Some ''plink_1'',
       o_payment_link = Some ''https://rzp.io/i/abc'', o_payment_status = Some ''pending'',
       o_status = Some ''pending'', o_paid_at = None, o_package_count = Some 1,
       o_package_weight_grams = Some 450, o_package_volumetric_grams = Some 120,
       o_billed_weight_grams = Some 500, o_courier_awb = Some ''AWB1'',
       o_courier_service = Some ''delhivery'' \<rparr>"

definition orders_db :: "order_row \<Rightarrow> db" where
  "orders_db row =
     shop_db\<lparr> orders := [row], orders_id_seq := 8,
              order_items := [\<lparr> oi_order_id = 7, oi_item_id = Some 1, oi_qty = Some 2,
                                oi_unit_price_paise = 10000 \<rparr>] \<rparr>"

definition link_paid_event :: "string \<Rightarrow> event_json" where
  "link_paid_event link_id =
     \<lparr> ev_event = Some ''payment_link.paid'',
       ev_payment_link_entity = Some \<lparr> le_id = Some link_id \<rparr>,
       ev_payment_entity = None \<rparr>"


definition courier_says :: "string \<Rightarrow> string \<Rightarrow> courier_payload" where
  "courier_says awb status =
     \<lparr> cp_awb = Some awb, cp_waybill = None, cp_status = Some status, cp_Status = None,
       cp_status_code = None, cp_StatusCode = None \<rparr>"


definition confirmed7 :: order_row where
  "confirmed7 = order7\<lparr> o_status := Some ''confirmed'' \<rparr>"

definition confirmed7_paid :: order_row where
  "confirmed7_paid =
     confirmed7\<lparr> o_payment_status := Some ''paid'',
                 o_paid_at := Some ''2025-01-01T00:00:00.000Z'' \<rparr>"

text \<open>A sender who is asked for the kind of delivery.\<close>

definition conv_db :: db where
  "conv_db =
     shop_db\<lparr> whatsapp_conversations :=
                [''919999999999'' \<mapsto>
                   \<lparr> cv_state = ''AWAIT_DELIVERY'',
                     cv_context = Some (empty_context\<lparr> ctx_school_code := Some ''1234'',
                                                      ctx_class_id := Some 1,
                                                      ctx_items := Some [scenario_item] \<rparr>),
                     cv_last_message_at = ''2025-01-01T00:00:00.000Z'' \<rparr>] \<rparr>"

section \<open>Properties of the weight calculator\<close>













lemma calc_weights_scenario:
  "calc_weights scenario_settings [(Some 2, Some scenario_item)] = scenario_weights"
  by (simp add: calc_weights_def Let_def weight_step_def scenario_item_def
        scenario_settings_def scenario_weights_def packagingWeight_def volumetricDivisor_def
        weightRounding_def or_default_def truthy_def js_num_def volumetric_of_def
        billed_of_def math_round_def math_ceil_def)










section \<open>Properties of the order assembler\<close>

lemma find_filter_implied:
  "(\<And>x. P x \<Longrightarrow> Q x) \<Longrightarrow> find P (filter Q xs) = find P xs"
  by (induction xs) auto

lemma find_select_items_in:
  "item_id \<in> set itemIds \<Longrightarrow>
   find (\<lambda>i. i_id i = item_id) (select_items_in d itemIds) = lookup_item d item_id"
  unfolding select_items_in_def lookup_item_def
  by (rule find_filter_implied) simp

text \<open>The loop on a list whose ids were all asked for in the query.\<close>

lemma order_loop_unknown:
  assumes "it \<in> set its" and "find (\<lambda>i. i_id i = fst it) itemsData = None"
  shows "\<exists>err. order_loop itemsData its tot acc = Inl err"
  using assms
proof (induction its arbitrary: tot acc)
  case Nil
  then show ?case by simp
next
  case (Cons x xs)
  obtain item_id qty where x: "x = (item_id, qty)" by (cases x)
  show ?case
  proof (cases "find (\<lambda>i. i_id i = item_id) itemsData")
    case None
    then show ?thesis by (simp add: x)
  next
    case (Some item)
    then have "it \<noteq> x" using Cons.prems(2) x by auto
    then have "it \<in> set xs" using Cons.prems(1) by simp
    from Cons.IH [OF this Cons.prems(2)] show ?thesis
      by (simp add: x Some)
  qed
qed

lemma order_loop_first_unknown:
  assumes "list_all (\<lambda>it. case find (\<lambda>i. i_id i = fst it) itemsData of
                             None \<Rightarrow> False
                           | Some item \<Rightarrow> \<not> js_num (i_stock item) < snd it) pre"
    and "find (\<lambda>i. i_id i = item_id) itemsData = None"
  shows "order_loop itemsData (pre @ (item_id, qty) # post) tot acc = Inl (UnknownItem item_id)"
  using assms
proof (induction pre arbitrary: tot acc)
  case Nil
  then show ?case by simp
next
  case (Cons x xs)
  obtain i q where x: "x = (i, q)" by (cases x)
  from Cons.prems(1) obtain item where
    f: "find (\<lambda>r. i_id r = i) itemsData = Some item" and st: "\<not> js_num (i_stock item) < q"
    and rest: "list_all (\<lambda>it. case find (\<lambda>i. i_id i = fst it) itemsData of
                             None \<Rightarrow> False
                           | Some item \<Rightarrow> \<not> js_num (i_stock item) < snd it) xs"
    by (auto simp: x split: option.splits)
  from Cons.IH [OF rest Cons.prems(2)] show ?case
    by (simp add: x f st)
qed


subsection \<open>What the later steps leave alone\<close>

lemma order_items_update_order [simp]:
  "order_items (update_order order_id f d) = order_items d"
  by (simp add: update_order_def)


lemma set_weights_keeps [simp]:
  "o_id (set_weights w row) = o_id row" "amounts_of (set_weights w row) = amounts_of row"
  by (simp_all add: set_weights_def amounts_of_def)

lemma set_payment_link_keeps [simp]:
  "o_id (set_payment_link a b row) = o_id row"
  "amounts_of (set_payment_link a b row) = amounts_of row"
  by (simp_all add: set_payment_link_def amounts_of_def)





subsection \<open>Where the call can end\<close>

lemma persist_order_Inl:
  assumes "persist_order e d school rq charge tot drafts = (Inl err, d')"
  shows "(err = ServerError CO_insert_order \<and> d' = d)
       \<or> (err = ServerError CO_insert_order_items
          \<and> d' = insert_order (new_order (orders_id_seq d) school rq charge tot) d)"
  using assms by (auto simp: persist_order_def Let_def split: if_splits)




lemma order_loop_Inl:
  "order_loop itemsData its tot acc = Inl err \<Longrightarrow>
   (\<exists>i. err = UnknownItem i) \<or> (\<exists>i. err = InsufficientStock i)"
proof (induction its arbitrary: tot acc)
  case Nil
  then show ?case by simp
next
  case (Cons x xs)
  obtain i q where x: "x = (i, q)" by (cases x)
  show ?case
  proof (cases "find (\<lambda>r. i_id r = i) itemsData")
    case None
    with Cons.prems show ?thesis by (auto simp: x)
  next
    case (Some item)
    show ?thesis
    proof (cases "js_num (i_stock item) < q")
      case True
      with Cons.prems Some show ?thesis by (auto simp: x)
    next
      case False
      with Cons.prems Some have
        "order_loop itemsData xs (tot + i_price_paise item * q)
           (acc @ [(i, q, i_price_paise item)]) = Inl err"
        by (simp add: x)
      then show ?thesis by (rule Cons.IH)
    qed
  qed
qed

lemma assemble_Inl:
  assumes "assemble e d school rq = (Inl err, d')"
  shows "(err \<noteq> ServerError CO_insert_order_items \<and> d' = d)
       \<or> (err = ServerError CO_insert_order_items
          \<and> (\<exists>row. o_id row = orders_id_seq d \<and> d' = insert_order row d))"
proof (cases "fails e CO_select_items")
  case True
  with assms show ?thesis by (auto simp: assemble_def Let_def)
next
  case nofail: False
  let ?charge = "delivery_charge (if fails e CO_select_settings then Map.empty else settings d)
                   (rq_delivery_type rq)"
  show ?thesis
  proof (cases "order_loop (select_items_in d (map fst (rq_items rq))) (rq_items rq) 0 []")
    case (Inl err')
    with assms nofail have e: "err' = err" "d' = d"
      by (simp_all add: assemble_def Let_def)
    from order_loop_Inl [OF Inl] e show ?thesis by auto
  next
    case (Inr checked)
    with assms nofail have
      "persist_order e d school rq ?charge (fst checked) (snd checked) = (Inl err, d')"
      by (simp add: assemble_def Let_def)
    from persist_order_Inl [OF this] show ?thesis
    proof
      assume "err = ServerError CO_insert_order \<and> d' = d"
      then show ?thesis by simp
    next
      let ?row = "new_order (orders_id_seq d) school rq ?charge (fst checked)"
      assume a: "err = ServerError CO_insert_order_items \<and> d' = insert_order ?row d"
      have "o_id ?row = orders_id_seq d" by (simp add: new_order_def)
      with a have "\<exists>row. o_id row = orders_id_seq d \<and> d' = insert_order row d" by blast
      with a show ?thesis by simp
    qed
  qed
qed

lemma create_order_Inl:
  assumes "create_order e d rq = (Inl err, d')"
  shows "(err \<noteq> ServerError CO_insert_order_items \<and> d' = d)
       \<or> (err = ServerError CO_insert_order_items
          \<and> (\<exists>row. o_id row = orders_id_seq d \<and> d' = insert_order row d))"
proof (cases "fails e CO_select_school")
  case True
  with assms show ?thesis by (auto simp: create_order_def)
next
  case nofail: False
  show ?thesis
  proof (cases "select_school d (rq_school_code rq)")
    case NoRow
    with assms nofail show ?thesis by (auto simp: create_order_def)
  next
    case (OneRow school)
    with assms nofail have "assemble e d school rq = (Inl err, d')"
      by (simp add: create_order_def)
    then show ?thesis by (rule assemble_Inl)
  next
    case ManyRows
    with assms nofail show ?thesis by (auto simp: create_order_def)
  qed
qed

subsection \<open>Totals\<close>

lemma line_total_order_item_of [simp]: "line_total (order_item_of order_id it) = draft_total it"
  by (simp add: line_total_def order_item_of_def draft_total_def js_num_def)





lemmas shop_defs =
  shop_db_def empty_db_def scenario_item_def scenario_settings_def scenario_env_def
  no_faults_def request_for_def

lemmas create_order_defs =
  create_order_def assemble_def persist_order_def select_school_def select_items_in_def delivery_charge_def
  new_order_def insert_order_def insert_order_items_def order_item_of_def
  trigger_compute_weights_def create_payment_link_def js_str_def js_num_def truthy_def




subsection \<open>Rejections\<close>

lemma in_stock_loaded:
  assumes "list_all (in_stock d) pre" and "set (map fst pre) \<subseteq> set itemIds"
  shows "list_all (\<lambda>it. case find (\<lambda>i. i_id i = fst it) (select_items_in d itemIds) of
                          None \<Rightarrow> False
                        | Some item \<Rightarrow> \<not> js_num (i_stock item) < snd it) pre"
  using assms
proof (induction pre)
  case Nil
  show ?case by simp
next
  case (Cons x xs)
  then have "fst x \<in> set itemIds" by simp
  then have "find (\<lambda>i. i_id i = fst x) (select_items_in d itemIds) = lookup_item d (fst x)"
    by (rule find_select_items_in)
  with Cons show ?case by (simp add: in_stock_def)
qed

lemma create_order_shop_short:
  "fst (create_order scenario_env shop_db (request_for [(1, 100), (99, 1)]))
     = Inl (InsufficientStock 1)"
  by (simp add: create_order_defs shop_defs Let_def)

text \<open>
  C5, as stated, fails: a request that asks for more of item 1 than is in stock before it
  names the unknown item 99 is rejected for the stock, not for the unknown item.
\<close>

theorem create_order_unknown_item_counterexample:
  "(99, 1) \<in> set (rq_items (request_for [(1, 100), (99, 1)]))
   \<and> lookup_item shop_db 99 = None
   \<and> fst (create_order scenario_env shop_db (request_for [(1, 100), (99, 1)]))
       = Inl (InsufficientStock 1)
   \<and> fst (create_order scenario_env shop_db (request_for [(1, 100), (99, 1)]))
       \<noteq> Inl (UnknownItem 99)"
proof -
  have a: "(99, 1) \<in> set (rq_items (request_for [(1, 100), (99, 1)]))"
    by (simp add: request_for_def)
  have b: "lookup_item shop_db 99 = None"
    by (simp add: lookup_item_def shop_defs)
  from a b create_order_shop_short show ?thesis by simp
qed

text \<open>
  C5, amended. For every order-creation request that contains an item id not present in
  the catalog, the call is rejected with an error and all persisted state is unchanged:
  no order row and no order item rows are created. The error is UnknownItem for that id
  when the school and item queries succeed, the school code is that of one active
  school, and every item listed before it is in the catalog with enough stock.
\<close>

theorem create_order_unknown_item:
  assumes "it \<in> set (rq_items rq)" and "lookup_item d (fst it) = None"
  shows "(\<exists>err. create_order e d rq = (Inl err, d))
       \<and> (\<forall>school pre post.
             \<not> fails e CO_select_school \<and> \<not> fails e CO_select_items
             \<and> select_school d (rq_school_code rq) = OneRow school
             \<and> rq_items rq = pre @ it # post \<and> list_all (in_stock d) pre
             \<longrightarrow> fst (create_order e d rq) = Inl (UnknownItem (fst it)))"
proof (intro conjI allI impI)
  let ?ids = "map fst (rq_items rq)"
  let ?data = "select_items_in d ?ids"
  have "fst it \<in> set ?ids" using assms(1) by simp
  then have none: "find (\<lambda>i. i_id i = fst it) ?data = None"
    using assms(2) by (simp only: find_select_items_in)
  from order_loop_unknown [OF assms(1) none] obtain err where
    loop: "order_loop ?data (rq_items rq) 0 [] = Inl err" by blast
  show "\<exists>err. create_order e d rq = (Inl err, d)"
    by (simp add: create_order_def assemble_def Let_def loop split: single.splits)
  fix school pre post
  assume a: "\<not> fails e CO_select_school \<and> \<not> fails e CO_select_items
             \<and> select_school d (rq_school_code rq) = OneRow school
             \<and> rq_items rq = pre @ it # post \<and> list_all (in_stock d) pre"
  then have split: "rq_items rq = pre @ (fst it, snd it) # post" by simp
  have "set (map fst pre) \<subseteq> set ?ids" using split by auto
  with a have "list_all (\<lambda>x. case find (\<lambda>i. i_id i = fst x) ?data of
                               None \<Rightarrow> False
                             | Some item \<Rightarrow> \<not> js_num (i_stock item) < snd x) pre"
    by (intro in_stock_loaded) simp_all
  from order_loop_first_unknown [OF this none]
  have "order_loop ?data (rq_items rq) 0 [] = Inl (UnknownItem (fst it))"
    by (simp only: split)
  with a show "fst (create_order e d rq) = Inl (UnknownItem (fst it))"
    by (simp add: create_order_def assemble_def Let_def)
qed

theorem create_order_unknown_item_witness:
  "(99, 1) \<in> set (rq_items (request_for [(1, 2), (99, 1)]))
   \<and> lookup_item shop_db 99 = None
   \<and> create_order scenario_env shop_db (request_for [(1, 2), (99, 1)])
       = (Inl (UnknownItem 99), shop_db)"
proof -
  let ?rq = "request_for [(1, 2), (99, 1)]"
  have m: "(99, 1) \<in> set (rq_items ?rq)"
    by (simp add: request_for_def)
  have n: "lookup_item shop_db (fst (99 :: int, 1 :: int)) = None"
    by (simp add: lookup_item_def shop_defs)
  have h: "\<not> fails scenario_env CO_select_school \<and> \<not> fails scenario_env CO_select_items
           \<and> select_school shop_db (rq_school_code ?rq)
               = OneRow \<lparr> s_id = 1, s_name = ''Hill School'', s_code_4digit = ''1234'',
                          s_address = Some ''1 Hill Road'', s_active = True \<rparr>
           \<and> rq_items ?rq = [(1, 2)] @ (99, 1) # [] \<and> list_all (in_stock shop_db) [(1, 2)]"
    by (simp add: select_school_def in_stock_def lookup_item_def js_num_def shop_defs)
  note t = create_order_unknown_item [OF m n, of scenario_env]
  from t [THEN conjunct1] obtain err where
    r: "create_order scenario_env shop_db ?rq = (Inl err, shop_db)" ..
  from t [THEN conjunct2, rule_format, OF h]
  have f: "fst (create_order scenario_env shop_db ?rq) = Inl (UnknownItem 99)"
    by simp
  from r f have "err = UnknownItem 99" by simp
  with r m n show ?thesis by simp
qed

lemma create_order_shop_orphan:
  "create_order (scenario_env\<lparr> fails := items_insert_fails \<rparr>) shop_db (request_for [(1, 2)])
     = (Inl (ServerError CO_insert_order_items),
        insert_order
          (new_order 1 \<lparr> s_id = 1, s_name = ''Hill School'', s_code_4digit = ''1234'',
                          s_address = Some ''1 Hill Road'', s_active = True \<rparr>
             (request_for [(1, 2)]) 5000 20000) shop_db)"
  by (simp add: create_order_def assemble_def persist_order_def select_school_def
        select_items_in_def delivery_charge_def js_num_def items_insert_fails_def shop_defs
        Let_def)

text \<open>
  C6, as stated, fails: the order and its items are written by two inserts with nothing
  between them and the client but a 500. When the second insert fails, the order row is
  there and no order item is.
\<close>

theorem create_order_atomic_counterexample:
  "fst (create_order (scenario_env\<lparr> fails := items_insert_fails \<rparr>) shop_db
          (request_for [(1, 2)])) = Inl (ServerError CO_insert_order_items)
   \<and> map o_id (orders (snd (create_order (scenario_env\<lparr> fails := items_insert_fails \<rparr>)
                               shop_db (request_for [(1, 2)])))) = [1]
   \<and> order_items (snd (create_order (scenario_env\<lparr> fails := items_insert_fails \<rparr>)
                          shop_db (request_for [(1, 2)]))) = []
   \<and> orders shop_db = []"
  by (simp only: create_order_shop_orphan fst_conv snd_conv)
     (simp add: insert_order_def new_order_def shop_defs)

text \<open>
  C6, amended. The order and its order items are persisted by two separate inserts,
  with no transaction and no compensating delete: when persisting the order items
  fails after the order row is inserted, the call returns a server error and the order
  row stays persisted without order items; every other rejection leaves the persisted
  state unchanged.
\<close>

theorem create_order_not_atomic:
  assumes "create_order e d rq = (Inl err, d')"
  shows "(err = ServerError CO_insert_order_items \<longrightarrow>
            (\<exists>row. o_id row = orders_id_seq d \<and> orders d' = orders d @ [row])
            \<and> order_items d' = order_items d)
       \<and> (err \<noteq> ServerError CO_insert_order_items \<longrightarrow> d' = d)"
  using create_order_Inl [OF assms] by (auto simp: insert_order_def)

theorem create_order_not_atomic_witness:
  "create_order (scenario_env\<lparr> fails := items_insert_fails \<rparr>) shop_db (request_for [(1, 2)])
     = (Inl (ServerError CO_insert_order_items),
        insert_order
          (new_order 1 \<lparr> s_id = 1, s_name = ''Hill School'', s_code_4digit = ''1234'',
                          s_address = Some ''1 Hill Road'', s_active = True \<rparr>
             (request_for [(1, 2)]) 5000 20000) shop_db)
   \<and> (\<exists>row. o_id row = orders_id_seq shop_db
              \<and> orders (insert_order
                    (new_order 1 \<lparr> s_id = 1, s_name = ''Hill School'', s_code_4digit = ''1234'',
                                    s_address = Some ''1 Hill Road'', s_active = True \<rparr>
                       (request_for [(1, 2)]) 5000 20000) shop_db) = orders shop_db @ [row])
   \<and> create_order scenario_env shop_db (request_for [(99, 1)])
       = (Inl (UnknownItem 99), shop_db)"
proof -
  have u: "create_order scenario_env shop_db (request_for [(99, 1)])
             = (Inl (UnknownItem 99), shop_db)"
    by (simp add: create_order_defs shop_defs Let_def)
  from create_order_not_atomic [OF create_order_shop_orphan] create_order_not_atomic [OF u]
    create_order_shop_orphan u
  show ?thesis by simp
qed

section \<open>Properties of the courier status mapper\<close>

lemma starts_with_iff: "starts_with s t \<longleftrightarrow> (\<exists>rest. s = t @ rest)"
  by (induction s t rule: starts_with.induct) auto

lemma str_includes_iff: "str_includes s t \<longleftrightarrow> (\<exists>before after. s = before @ t @ after)"
proof (induction s)
  case Nil
  show ?case by auto
next
  case (Cons x xs)
  show ?case
  proof
    assume "str_includes (x # xs) t"
    then consider "starts_with (x # xs) t" | "str_includes xs t" by auto
    then show "\<exists>before after. x # xs = before @ t @ after"
    proof cases
      case 1
      then obtain rest where "x # xs = t @ rest" by (auto simp: starts_with_iff)
      then have "x # xs = [] @ t @ rest" by simp
      then show ?thesis by blast
    next
      case 2
      then obtain before after where "xs = before @ t @ after" using Cons.IH by blast
      then have "x # xs = (x # before) @ t @ after" by simp
      then show ?thesis by blast
    qed
  next
    assume "\<exists>before after. x # xs = before @ t @ after"
    then obtain before after where e: "x # xs = before @ t @ after" by blast
    show "str_includes (x # xs) t"
    proof (cases before)
      case Nil
      with e have "starts_with (x # xs) t" by (auto simp: starts_with_iff)
      then show ?thesis by simp
    next
      case (Cons b bs)
      with e have "xs = bs @ t @ after" by simp
      then have "str_includes xs t" using Cons.IH by blast
      then show ?thesis by simp
    qed
  qed
qed

lemma str_includes_mentions: "str_includes (toLowerCase t) word \<longleftrightarrow> mentions t word"
  by (simp add: str_includes_iff mentions_def)

lemma normalize_status_rules:
  "normalize_status (toLowerCase t) =
     (if pickup_text t then Some ''processing''
      else if transit_text t then Some ''out_for_delivery''
      else if delivered_text t then Some ''delivered''
      else if cancel_text t then Some ''cancelled''
      else None)"
  unfolding normalize_status_def str_includes_mentions pickup_text_def transit_text_def
    delivered_text_def cancel_text_def
  by (rule refl)

lemma courier_event_received_resolved:
  assumes "courier_resolves d payload order" and "\<not> fails e DW_select_order"
    and "\<not> fails e DW_update_status"
  shows "courier_event_received e d payload =
           (let d1 = (if fails e DW_insert_event then d
                      else insert_event (courier_event (o_id order) payload) d);
                st = normalize_status (toLowerCase (str_or_empty (status_text payload)))
            in (Inr (StatusHandled (o_id order) st),
                case st of None \<Rightarrow> d1
                | Some newStatus \<Rightarrow> update_order (o_id order) (set_status newStatus) d1))"
  using assms
  by (simp add: courier_event_received_def courier_resolves_def Let_def split: option.splits)

lemma orders_insert_event [simp]: "orders (insert_event ev d) = orders d"
  by (simp add: insert_event_def)

text \<open>
  C8, amended. For every courier webhook event that resolves to an order, the status
  text is matched without regard to letter case against four rules tried in order, and
  the first rule that matches decides: pickup text gives "processing"; otherwise
  transit, dispatch or out-for-delivery text gives "out_for_delivery"; otherwise text
  containing "delivered" gives "delivered"; otherwise cancellation, RTO or return text
  gives "cancelled"; text matching no rule leaves the order's lifecycle status
  unchanged. In particular a text containing "out for delivery" and neither "picked" nor
  "pickup", in whatever letter case, gives "out_for_delivery".
\<close>

theorem courier_status_mapping:
  assumes "courier_resolves d payload order" and "\<not> fails e DW_select_order"
    and "\<not> fails e DW_update_status"
    and "t = str_or_empty (status_text payload)"
    and "r = delhivery_webhook e d POST (Some payload)"
  shows "\<exists>st. fst r = Inr (StatusHandled (o_id order) st)
          \<and> orders (snd r) = (case st of None \<Rightarrow> orders d
                              | Some newStatus \<Rightarrow>
                                  orders (update_order (o_id order) (set_status newStatus) d))
          \<and> (pickup_text t \<longrightarrow> st = Some ''processing'')
          \<and> (\<not> pickup_text t \<and> transit_text t \<longrightarrow> st = Some ''out_for_delivery'')
          \<and> (\<not> pickup_text t \<and> \<not> transit_text t \<and> delivered_text t \<longrightarrow> st = Some ''delivered'')
          \<and> (\<not> pickup_text t \<and> \<not> transit_text t \<and> \<not> delivered_text t \<and> cancel_text t
               \<longrightarrow> st = Some ''cancelled'')
          \<and> (\<not> pickup_text t \<and> \<not> transit_text t \<and> \<not> delivered_text t \<and> \<not> cancel_text t
               \<longrightarrow> st = None)
          \<and> (mentions t ''out for delivery'' \<and> \<not> mentions t ''picked'' \<and> \<not> mentions t ''pickup''
               \<longrightarrow> st = Some ''out_for_delivery'')"
proof -
  let ?st = "normalize_status (toLowerCase t)"
  let ?d1 = "if fails e DW_insert_event then d
             else insert_event (courier_event (o_id order) payload) d"
  have r: "r = (Inr (StatusHandled (o_id order) ?st),
                case ?st of None \<Rightarrow> ?d1
                | Some newStatus \<Rightarrow> update_order (o_id order) (set_status newStatus) ?d1)"
    using courier_event_received_resolved [OF assms(1-3)]
    by (simp add: assms(4,5) delhivery_webhook_def Let_def)
  have o1: "orders ?d1 = orders d" by simp
  have ords: "orders (snd r) = (case ?st of None \<Rightarrow> orders d
                | Some newStatus \<Rightarrow> orders (update_order (o_id order) (set_status newStatus) d))"
    by (simp add: r update_order_def split: option.splits)
  have rules: "?st = (if pickup_text t then Some ''processing''
                      else if transit_text t then Some ''out_for_delivery''
                      else if delivered_text t then Some ''delivered''
                      else if cancel_text t then Some ''cancelled''
                      else None)"
    by (rule normalize_status_rules)
  have ofd: "mentions t ''out for delivery'' \<and> \<not> mentions t ''picked'' \<and> \<not> mentions t ''pickup''
             \<longrightarrow> ?st = Some ''out_for_delivery''"
    by (simp add: rules pickup_text_def transit_text_def)
  show ?thesis
    apply (rule exI [of _ ?st])
    apply (intro conjI)
           apply (simp add: r)
          apply (rule ords)
         apply (simp add: rules)
        apply (simp add: rules)
       apply (simp add: rules)
      apply (simp add: rules)
     apply (simp add: rules)
    apply (rule ofd)
    done
qed

lemma lower_out_for_delivery:
  "toLowerCase ''Pickup done - Out For Delivery'' = ''pickup done - out for delivery''"
  "toLowerCase ''OUT FOR DELIVERY'' = ''out for delivery''"
  by (simp_all add: toLowerCase_def lower_char_def upper_letters_def lower_letters_def)


lemmas string_defs =
  toLowerCase_def lower_char_def upper_letters_def lower_letters_def

lemma courier_resolves_order7:
  "courier_resolves (orders_db order7) (courier_says ''AWB1'' status) order7"
  by (simp add: courier_resolves_def courier_says_def js_or_def js_str_def orders_db_def
        shop_db_def empty_db_def) (simp add: order7_def)

lemma courier_no_faults:
  "\<not> fails scenario_env DW_select_order" "\<not> fails scenario_env DW_update_status"
  by (simp_all add: scenario_env_def no_faults_def)

lemma courier_text:
  "str_or_empty (status_text (courier_says awb status)) = str_or_empty (Some status)"
  by (simp add: status_text_def courier_says_def js_or_def js_str_def str_or_empty_def)

lemma mentions_out_for_delivery:
  "mentions ''OUT FOR DELIVERY'' ''out for delivery''"
  "\<not> mentions ''OUT FOR DELIVERY'' ''picked''"
  "\<not> mentions ''OUT FOR DELIVERY'' ''pickup''"
  unfolding str_includes_mentions [symmetric]
  by (simp_all add: string_defs)

theorem courier_status_mapping_witness:
  "courier_resolves (orders_db order7) (courier_says ''AWB1'' ''OUT FOR DELIVERY'') order7
   \<and> \<not> fails scenario_env DW_select_order \<and> \<not> fails scenario_env DW_update_status
   \<and> mentions ''OUT FOR DELIVERY'' ''out for delivery''
   \<and> \<not> mentions ''OUT FOR DELIVERY'' ''picked'' \<and> \<not> mentions ''OUT FOR DELIVERY'' ''pickup''
   \<and> fst (delhivery_webhook scenario_env (orders_db order7) POST
            (Some (courier_says ''AWB1'' ''OUT FOR DELIVERY'')))
       = Inr (StatusHandled 7 (Some ''out_for_delivery''))"
proof -
  let ?p = "courier_says ''AWB1'' ''OUT FOR DELIVERY''"
  have t: "''OUT FOR DELIVERY'' = str_or_empty (status_text ?p)"
    by (simp only: courier_text) (simp add: str_or_empty_def js_str_def)
  from courier_status_mapping [OF courier_resolves_order7 courier_no_faults t refl]
  obtain st where
    r: "fst (delhivery_webhook scenario_env (orders_db order7) POST (Some ?p))
          = Inr (StatusHandled (o_id order7) st)"
    and ofd: "mentions ''OUT FOR DELIVERY'' ''out for delivery''
              \<and> \<not> mentions ''OUT FOR DELIVERY'' ''picked''
              \<and> \<not> mentions ''OUT FOR DELIVERY'' ''pickup'' \<longrightarrow> st = Some ''out_for_delivery''"
    by blast
  from ofd mentions_out_for_delivery have "st = Some ''out_for_delivery''" by blast
  with r have "fst (delhivery_webhook scenario_env (orders_db order7) POST (Some ?p))
                 = Inr (StatusHandled 7 (Some ''out_for_delivery''))"
    by (simp add: order7_def)
  with courier_resolves_order7 courier_no_faults mentions_out_for_delivery
  show ?thesis by blast
qed

text \<open>
  C8, as stated, fails: a status text that contains "out for delivery" after the word
  "pickup" puts the order in "processing".
\<close>

theorem courier_status_mapping_counterexample:
  "mentions ''Pickup done - Out For Delivery'' ''out for delivery''
   \<and> fst (delhivery_webhook scenario_env (orders_db order7) POST
            (Some (courier_says ''AWB1'' ''Pickup done - Out For Delivery'')))
       = Inr (StatusHandled 7 (Some ''processing''))"
proof -
  have m: "mentions ''Pickup done - Out For Delivery'' ''out for delivery''"
    unfolding str_includes_mentions [symmetric] by (simp add: string_defs)
  have p: "pickup_text ''Pickup done - Out For Delivery''"
    unfolding pickup_text_def str_includes_mentions [symmetric] by (simp add: string_defs)
  let ?p = "courier_says ''AWB1'' ''Pickup done - Out For Delivery''"
  have t: "str_or_empty (status_text ?p) = ''Pickup done - Out For Delivery''"
    by (simp only: courier_text) (simp add: str_or_empty_def js_str_def)
  have "courier_event_received scenario_env (orders_db order7) ?p
          = (let d1 = (if fails scenario_env DW_insert_event then orders_db order7
                       else insert_event (courier_event (o_id order7) ?p) (orders_db order7));
                 st = normalize_status (toLowerCase (str_or_empty (status_text ?p)))
             in (Inr (StatusHandled (o_id order7) st),
                 case st of None \<Rightarrow> d1
                 | Some newStatus \<Rightarrow> update_order (o_id order7) (set_status newStatus) d1))"
    by (rule courier_event_received_resolved [OF courier_resolves_order7 courier_no_faults])
  then have "fst (delhivery_webhook scenario_env (orders_db order7) POST (Some ?p))
               = Inr (StatusHandled 7 (Some ''processing''))"
    by (simp add: delhivery_webhook_def Let_def t normalize_status_rules p order7_def)
  with m show ?thesis by simp
qed

section \<open>Properties of the payment reconciler\<close>

lemma razorpay_webhook_accepted:
  "accepted e req eventJson \<Longrightarrow> razorpay_webhook e d req = process_event e d eventJson"
  by (auto simp: accepted_def razorpay_webhook_def)

lemma accepted_delivered: "accepted e (delivered eventJson) eventJson"
  by (simp add: accepted_def delivered_def)

lemma orders_logWebhook [simp]: "orders (logWebhook e orderId payload d) = orders d"
  by (simp add: logWebhook_def)

lemma courier_events_logWebhook:
  "courier_events (logWebhook e orderId payload d)
     = (if fails e RZ_log_webhook then courier_events d
        else courier_events d @ [razorpay_event orderId payload])"
  by (simp add: logWebhook_def insert_event_def)

lemma process_event_unresolved:
  assumes "payment_unresolved e d eventJson"
  shows "process_event e d eventJson = (Inr NoMatchingOrder, logWebhook e None eventJson d, [])"
proof (cases "ev_event eventJson = Some ''payment_link.paid''")
  case True
  with assms obtain linkEntity where
    "ev_payment_link_entity eventJson = Some linkEntity" "\<not> fails e RZ_select_by_link"
    "select_by_payment_id d (js_str (le_id linkEntity)) = NoRow"
    by (auto simp: payment_unresolved_def split: option.splits)
  with True show ?thesis
    by (simp add: process_event_def payment_link_paid_def)
next
  case False
  with assms have ev: "ev_event eventJson = Some ''payment.captured''
                       \<or> ev_event eventJson = Some ''payment.failed''"
    by (auto simp: payment_unresolved_def split: if_splits)
  with assms False obtain paymentEntity where
    "ev_payment_entity eventJson = Some paymentEntity"
    "find_payment_order e d paymentEntity = Inr None"
    by (auto simp: payment_unresolved_def split: option.splits)
  with ev show ?thesis
    by (auto simp: process_event_def payment_event_def)
qed

lemma delhivery_webhook_unresolved:
  assumes "courier_unresolved d payload" and "\<not> fails e DW_select_order"
  shows "delhivery_webhook e d POST (Some payload) = (Inr OrderNotFound, d)"
  using assms
  by (simp add: delhivery_webhook_def courier_event_received_def courier_unresolved_def Let_def)

text \<open>
  C9, as stated, fails for the courier webhook: an event with a tracking id that no order
  carries is acknowledged and nothing at all is written, no audit record either.
\<close>

theorem unresolved_event_counterexample:
  "courier_unresolved (orders_db order7) (courier_says ''AWB9'' ''Delivered'')
   \<and> fst (delhivery_webhook scenario_env (orders_db order7) POST
            (Some (courier_says ''AWB9'' ''Delivered''))) = Inr OrderNotFound
   \<and> courier_events (snd (delhivery_webhook scenario_env (orders_db order7) POST
                             (Some (courier_says ''AWB9'' ''Delivered'')))) = []"
proof -
  have u: "courier_unresolved (orders_db order7) (courier_says ''AWB9'' ''Delivered'')"
    by (simp add: courier_unresolved_def courier_says_def js_or_def js_str_def orders_db_def
          shop_db_def empty_db_def) (simp add: order7_def)
  have "delhivery_webhook scenario_env (orders_db order7) POST
          (Some (courier_says ''AWB9'' ''Delivered'')) = (Inr OrderNotFound, orders_db order7)"
    using u courier_no_faults(1) by (rule delhivery_webhook_unresolved)
  with u show ?thesis by (simp add: orders_db_def shop_db_def empty_db_def)
qed

text \<open>
  C9, amended. For every inbound payment or courier webhook event whose payment
  reference or tracking id resolves to no existing order, the handler acknowledges with
  success and changes no order. The payment webhook appends an audit record of the raw
  event, with no order id, when that insert succeeds; the courier webhook appends none
  and leaves all persisted state as it was.
\<close>

theorem unresolved_event_acknowledged:
  "(accepted e req eventJson \<and> payment_unresolved e d eventJson \<longrightarrow>
      fst (razorpay_webhook e d req) = Inr NoMatchingOrder
      \<and> orders (fst (snd (razorpay_webhook e d req))) = orders d
      \<and> snd (snd (razorpay_webhook e d req)) = []
      \<and> courier_events (fst (snd (razorpay_webhook e d req)))
          = (if fails e RZ_log_webhook then courier_events d
             else courier_events d @ [razorpay_event None eventJson]))
   \<and> (courier_unresolved d payload \<and> \<not> fails e DW_select_order \<longrightarrow>
        delhivery_webhook e d POST (Some payload) = (Inr OrderNotFound, d))"
proof (intro conjI impI)
  assume a: "accepted e req eventJson \<and> payment_unresolved e d eventJson"
  then have "razorpay_webhook e d req = process_event e d eventJson"
    by (intro razorpay_webhook_accepted) simp
  also have "\<dots> = (Inr NoMatchingOrder, logWebhook e None eventJson d, [])"
    using a by (intro process_event_unresolved) simp
  finally have r: "razorpay_webhook e d req
                     = (Inr NoMatchingOrder, logWebhook e None eventJson d, [])" .
  show "fst (razorpay_webhook e d req) = Inr NoMatchingOrder" by (simp add: r)
  show "orders (fst (snd (razorpay_webhook e d req))) = orders d" by (simp add: r)
  show "snd (snd (razorpay_webhook e d req)) = []" by (simp add: r)
  show "courier_events (fst (snd (razorpay_webhook e d req)))
          = (if fails e RZ_log_webhook then courier_events d
             else courier_events d @ [razorpay_event None eventJson])"
    by (simp only: r fst_conv snd_conv courier_events_logWebhook)
next
  assume "courier_unresolved d payload \<and> \<not> fails e DW_select_order"
  then show "delhivery_webhook e d POST (Some payload) = (Inr OrderNotFound, d)"
    by (simp add: delhivery_webhook_unresolved)
qed

lemma payment_unresolved_example:
  "payment_unresolved scenario_env (orders_db order7) (link_paid_event ''plink_9'')"
  by (simp add: payment_unresolved_def link_paid_event_def select_by_payment_id_def js_str_def
        scenario_env_def no_faults_def orders_db_def shop_db_def empty_db_def)
     (simp add: order7_def)

theorem unresolved_event_acknowledged_witness:
  "accepted scenario_env (delivered (link_paid_event ''plink_9'')) (link_paid_event ''plink_9'')
   \<and> payment_unresolved scenario_env (orders_db order7) (link_paid_event ''plink_9'')
   \<and> fst (razorpay_webhook scenario_env (orders_db order7)
            (delivered (link_paid_event ''plink_9''))) = Inr NoMatchingOrder
   \<and> courier_events (fst (snd (razorpay_webhook scenario_env (orders_db order7)
                                   (delivered (link_paid_event ''plink_9'')))))
       = [razorpay_event None (link_paid_event ''plink_9'')]
   \<and> courier_unresolved (orders_db order7) (courier_says ''AWB9'' ''Delivered'')
   \<and> \<not> fails scenario_env DW_select_order
   \<and> delhivery_webhook scenario_env (orders_db order7) POST
        (Some (courier_says ''AWB9'' ''Delivered'')) = (Inr OrderNotFound, orders_db order7)"
proof -
  have u: "courier_unresolved (orders_db order7) (courier_says ''AWB9'' ''Delivered'')"
    by (simp add: courier_unresolved_def courier_says_def js_or_def js_str_def orders_db_def
          shop_db_def empty_db_def) (simp add: order7_def)
  have nf: "\<not> fails scenario_env RZ_log_webhook"
    by (simp add: scenario_env_def no_faults_def)
  have ce: "courier_events (orders_db order7) = []"
    by (simp add: orders_db_def shop_db_def empty_db_def)
  note t = unresolved_event_acknowledged
             [of scenario_env "delivered (link_paid_event ''plink_9'')"
                 "link_paid_event ''plink_9''" "orders_db order7"
                 "courier_says ''AWB9'' ''Delivered''"]
  from t accepted_delivered payment_unresolved_example u courier_no_faults(1) nf ce
  show ?thesis by simp
qed


subsection \<open>Failed payments\<close>


lemma mark_failed_id [simp]: "o_id (mark_failed r) = o_id r"
  by (simp add: mark_failed_def)








subsection \<open>The duplicate gate\<close>

lemma already_paid_iff: "already_paid (select_cols row) \<longleftrightarrow> o_payment_status row = Some ''paid''"
  by (simp add: already_paid_def select_cols_def sel_status_def)

text \<open>
  The part of C1 that the code keeps: a paid event for an order whose payment status is
  "paid" writes the audit record and nothing else, and nothing leaves the system.
\<close>

lemma paid_event_on_paid_order:
  assumes "ev_event eventJson = Some ''payment_link.paid''"
    and "ev_payment_link_entity eventJson = Some linkEntity"
    and "\<not> fails e RZ_select_by_link"
    and "select_by_payment_id d (js_str (le_id linkEntity)) = OneRow row"
    and "o_payment_status row = Some ''paid''"
  shows "process_event e d eventJson
           = (Inr AlreadyPaid, logWebhook e (Some (o_id row)) eventJson d, [])"
  using assms by (simp add: process_event_def payment_link_paid_def already_paid_iff)

lemma captured_event_on_paid_order:
  assumes "ev_event eventJson = Some ''payment.captured''"
    and "ev_payment_entity eventJson = Some paymentEntity"
    and "find_payment_order e d paymentEntity = Inr (Some row)"
    and "o_payment_status row = Some ''paid''"
  shows "process_event e d eventJson
           = (Inr AlreadyPaid, logWebhook e (Some (o_id row)) eventJson d, [])"
  using assms by (simp add: process_event_def payment_event_def already_paid_iff)

lemma paid_event_on_unpaid_order:
  assumes "ev_event eventJson = Some ''payment_link.paid''"
    and "ev_payment_link_entity eventJson = Some linkEntity"
    and "\<not> fails e RZ_select_by_link"
    and "select_by_payment_id d (js_str (le_id linkEntity)) = OneRow row"
    and "o_payment_status row \<noteq> Some ''paid''"
  shows "process_event e d eventJson = confirm_link_payment e d eventJson (select_cols row)"
  using assms by (simp add: process_event_def payment_link_paid_def already_paid_iff)


lemma select_confirmed7:
  "select_by_payment_id (orders_db confirmed7) (js_str (Some ''plink_1'')) = OneRow confirmed7"
  by (simp add: select_by_payment_id_def js_str_def orders_db_def)
     (simp add: confirmed7_def order7_def)

lemma link_paid_event_fields:
  "ev_event (link_paid_event link_id) = Some ''payment_link.paid''"
  "ev_payment_link_entity (link_paid_event link_id) = Some \<lparr> le_id = Some link_id \<rparr>"
  by (simp_all add: link_paid_event_def)


subsection \<open>The whole chain on the confirmed order\<close>

lemma compute_weights_snd:
  assumes "truthy order_id" and "\<not> fails e CW_select_order_items"
    and "\<not> fails e CW_select_settings" and "\<not> fails e CW_update_order"
    and "\<not> fails e CW_upsert_parcel"
  shows "snd (compute_weights e d order_id)
           = (let w = calc_weights (settings d) (select_order_items d (js_num order_id));
                  d1 = update_order (js_num order_id) (set_weights w) d
              in d1\<lparr> courier_parcels := courier_parcels d1 @ [parcel_of (js_num order_id) w] \<rparr>)"
  using assms by (simp add: compute_weights_def Let_def)

lemma create_shipment_mock:
  assumes "order_id \<noteq> 0" and "\<not> fails e CS_select_order"
    and "filter (\<lambda>row. o_id row = order_id) (orders d) = [order]"
    and "truthy (o_billed_weight_grams order)"
    and "\<not> fails e CS_select_parcels"
    and "filter (\<lambda>p. p_order_id p = order_id) (courier_parcels d) \<noteq> []"
    and "\<not> delhivery_api_key e"
  shows "create_shipment e d (Some order_id)
           = (Inr \<lparr> sh_order_id = order_id, sh_awb = ''MOCK'' @ now_ms e, sh_mock = True \<rparr>,
              store_awb e order_id (''MOCK'' @ now_ms e) d)"
  using assms
  by (simp add: create_shipment_def ensure_weights_def dispatch_def truthy_def js_num_def
        Let_def)

lemma scenario_env_fields:
  "fails scenario_env site = False" "now scenario_env = ''2025-01-01T00:00:00.000Z''"
  "now_ms scenario_env = ''1735689600000''" "whatsapp_credentials scenario_env"
  "\<not> delhivery_api_key scenario_env"
  by (simp_all add: scenario_env_def no_faults_def)

lemma orders_db_tables:
  "orders (orders_db row) = [row]"
  "settings (orders_db row) = scenario_settings"
  "select_order_items (orders_db row) 7 = [(Some 2, Some scenario_item)]"
  "courier_parcels (orders_db row) = []"
  by (simp_all add: orders_db_def shop_db_def empty_db_def select_order_items_def
        scenario_item_def)


lemma confirm_link_payment_parts:
  "confirm_link_payment e d eventJson orderRow
     = (Inr Processed,
        snd (trigger_create_shipment e (sel_id orderRow)
               (trigger_compute_weights e RZ_fetch_compute_weights (sel_id orderRow)
                  (logWebhook e (Some (sel_id orderRow)) eventJson
                     (if fails e RZ_update_paid then d
                      else update_order (sel_id orderRow) (mark_paid (now e)) d)))),
        sendWhatsAppMessage e (Some (sel_parent_phone orderRow))
          (PaymentReceived (sel_id orderRow) (sel_total_amount_paise orderRow))
        @ [FetchComputeWeights (sel_id orderRow), FetchCreateShipment (sel_id orderRow)]
        @ (case fst (trigger_create_shipment e (sel_id orderRow)
                      (trigger_compute_weights e RZ_fetch_compute_weights (sel_id orderRow)
                         (logWebhook e (Some (sel_id orderRow)) eventJson
                            (if fails e RZ_update_paid then d
                             else update_order (sel_id orderRow) (mark_paid (now e)) d)))) of
             None \<Rightarrow> []
           | Some awb \<Rightarrow> sendWhatsAppMessage e (Some (sel_parent_phone orderRow))
                          (ShipmentCreated (sel_id orderRow) awb)))"
  by (simp add: confirm_link_payment_def Let_def)

lemma confirmed7_chain:
  defines "d2 \<equiv> logWebhook scenario_env (Some 7) (link_paid_event ''plink_1'')
                  (update_order 7 (mark_paid ''2025-01-01T00:00:00.000Z'') (orders_db confirmed7))"
  defines "d3 \<equiv> trigger_compute_weights scenario_env RZ_fetch_compute_weights 7 d2"
  shows "orders d2 = [confirmed7_paid]"
    and "orders d3 = [set_weights scenario_weights confirmed7_paid]"
    and "courier_parcels d3 = [parcel_of 7 scenario_weights]"
    and "trigger_create_shipment scenario_env 7 d3
           = (Some ''MOCK1735689600000'', store_awb scenario_env 7 ''MOCK1735689600000'' d3)"
proof -
  have i7: "o_id confirmed7 = 7" by (simp add: confirmed7_def order7_def)
  have mp: "mark_paid ''2025-01-01T00:00:00.000Z'' confirmed7 = confirmed7_paid"
    by (simp add: mark_paid_def confirmed7_paid_def confirmed7_def order7_def)
  show o2: "orders d2 = [confirmed7_paid]"
    unfolding d2_def
    by (simp only: orders_logWebhook) (simp add: update_order_def orders_db_tables i7 mp)
  have st2: "settings d2 = scenario_settings"
    and oi2: "select_order_items d2 7 = [(Some 2, Some scenario_item)]"
    and cp2: "courier_parcels d2 = []"
    unfolding d2_def
    by (simp_all add: logWebhook_def insert_event_def update_order_def select_order_items_def
          orders_db_def shop_db_def empty_db_def scenario_item_def)
  have d3: "d3 = (let w = calc_weights (settings d2) (select_order_items d2 (js_num (Some 7)));
                      d1 = update_order (js_num (Some 7)) (set_weights w) d2
                  in d1\<lparr> courier_parcels := courier_parcels d1 @ [parcel_of (js_num (Some 7)) w] \<rparr>)"
    unfolding d3_def trigger_compute_weights_def
    by (simp only: scenario_env_fields if_False)
       (rule compute_weights_snd, simp_all add: scenario_env_fields truthy_def)
  have i7p: "o_id confirmed7_paid = 7" by (simp add: confirmed7_paid_def i7)
  show o3: "orders d3 = [set_weights scenario_weights confirmed7_paid]"
    by (simp add: d3 Let_def js_num_def st2 oi2 calc_weights_scenario update_order_def o2 i7p)
  show p3: "courier_parcels d3 = [parcel_of 7 scenario_weights]"
    by (simp add: d3 Let_def js_num_def st2 oi2 calc_weights_scenario update_order_def cp2)
  have f: "filter (\<lambda>row. o_id row = 7) (orders d3) = [set_weights scenario_weights confirmed7_paid]"
    by (simp add: o3 i7p)
  have b: "truthy (o_billed_weight_grams (set_weights scenario_weights confirmed7_paid))"
    by (simp add: set_weights_def scenario_weights_def truthy_def)
  have pf: "filter (\<lambda>p. p_order_id p = 7) (courier_parcels d3) \<noteq> []"
    by (simp add: p3 parcel_of_def)
  have "create_shipment scenario_env d3 (Some 7)
          = (Inr \<lparr> sh_order_id = 7, sh_awb = ''MOCK'' @ now_ms scenario_env, sh_mock = True \<rparr>,
             store_awb scenario_env 7 (''MOCK'' @ now_ms scenario_env) d3)"
    by (rule create_shipment_mock [OF _ _ f b _ pf]) (simp_all add: scenario_env_fields)
  then show "trigger_create_shipment scenario_env 7 d3
               = (Some ''MOCK1735689600000'', store_awb scenario_env 7 ''MOCK1735689600000'' d3)"
    by (simp add: trigger_create_shipment_def scenario_env_fields js_str_def)
qed


text \<open>
  C1 at an order whose lifecycle status is "confirmed" and whose payment status is still
  "pending": the gate reads \<open>orderRow.status\<close>, which the query did not select, so the
  paid event is not taken for a duplicate. The order is updated, the buyer is told that
  the payment was received, the weight calculator and the dispatcher are called, and the
  buyer is told of the shipment.
\<close>

theorem paid_event_on_confirmed_order:
  "o_status confirmed7 = Some ''confirmed''
   \<and> o_payment_status confirmed7 = Some ''pending''
   \<and> select_by_payment_id (orders_db confirmed7) (Some ''plink_1'') = OneRow confirmed7
   \<and> fst (razorpay_webhook scenario_env (orders_db confirmed7)
            (delivered (link_paid_event ''plink_1''))) = Inr Processed
   \<and> map o_payment_status
        (orders (fst (snd (razorpay_webhook scenario_env (orders_db confirmed7)
                             (delivered (link_paid_event ''plink_1''))))))
       = [Some ''paid'']
   \<and> map o_paid_at
        (orders (fst (snd (razorpay_webhook scenario_env (orders_db confirmed7)
                             (delivered (link_paid_event ''plink_1''))))))
       = [Some ''2025-01-01T00:00:00.000Z'']
   \<and> map o_status
        (orders (fst (snd (razorpay_webhook scenario_env (orders_db confirmed7)
                             (delivered (link_paid_event ''plink_1''))))))
       = [Some ''processing'']
   \<and> snd (snd (razorpay_webhook scenario_env (orders_db confirmed7)
                  (delivered (link_paid_event ''plink_1''))))
       = [WhatsAppPost ''919999999999'' (PaymentReceived 7 25000), FetchComputeWeights 7,
          FetchCreateShipment 7,
          WhatsAppPost ''919999999999'' (ShipmentCreated 7 ''MOCK1735689600000'')]"
proof -
  let ?e = "scenario_env"
  let ?ev = "link_paid_event ''plink_1''"
  let ?r = "razorpay_webhook ?e (orders_db confirmed7) (delivered ?ev)"
  let ?d2 = "logWebhook scenario_env (Some 7) ?ev
               (update_order 7 (mark_paid ''2025-01-01T00:00:00.000Z'') (orders_db confirmed7))"
  let ?d3 = "trigger_compute_weights scenario_env RZ_fetch_compute_weights 7 ?d2"
  have st: "o_status confirmed7 = Some ''confirmed''" "o_payment_status confirmed7 = Some ''pending''"
    by (simp_all add: confirmed7_def order7_def)
  have sel: "select_by_payment_id (orders_db confirmed7) (Some ''plink_1'') = OneRow confirmed7"
    using select_confirmed7 by (simp add: js_str_def)
  have np: "o_payment_status confirmed7 \<noteq> Some ''paid''" by (simp add: st)
  have nf: "\<not> fails scenario_env RZ_select_by_link" by (simp add: scenario_env_fields)
  have cols: "sel_id (select_cols confirmed7) = 7"
    "sel_parent_phone (select_cols confirmed7) = ''+919999999999''"
    "sel_total_amount_paise (select_cols confirmed7) = 25000"
    by (simp_all add: select_cols_def confirmed7_def order7_def)
  have "?r = process_event ?e (orders_db confirmed7) ?ev"
    by (rule razorpay_webhook_accepted [OF accepted_delivered])
  also have "\<dots> = confirm_link_payment ?e (orders_db confirmed7) ?ev (select_cols confirmed7)"
    by (rule paid_event_on_unpaid_order [OF link_paid_event_fields nf _ np])
       (simp add: select_confirmed7)
  finally have r: "?r = (Inr Processed,
      snd (trigger_create_shipment ?e 7 ?d3),
      sendWhatsAppMessage ?e (Some ''+919999999999'') (PaymentReceived 7 25000)
      @ [FetchComputeWeights 7, FetchCreateShipment 7]
      @ (case fst (trigger_create_shipment ?e 7 ?d3) of
           None \<Rightarrow> []
         | Some awb \<Rightarrow> sendWhatsAppMessage ?e (Some ''+919999999999'') (ShipmentCreated 7 awb)))"
    by (simp only: confirm_link_payment_parts cols scenario_env_fields if_False)
  note ch = confirmed7_chain
  have r1: "fst ?r = Inr Processed" by (simp only: r fst_conv)
  have d4: "fst (snd ?r) = store_awb ?e 7 ''MOCK1735689600000'' ?d3"
    by (simp only: r fst_conv snd_conv ch(4))
  have ords: "orders (fst (snd ?r))
                = [mark_shipped ''MOCK1735689600000'' (set_weights scenario_weights confirmed7_paid)]"
  proof -
    have i: "o_id confirmed7_paid = 7"
      by (simp add: confirmed7_paid_def confirmed7_def order7_def)
    have "orders (store_awb ?e 7 ''MOCK1735689600000'' ?d3)
            = map (\<lambda>row. if o_id row = 7 then mark_shipped ''MOCK1735689600000'' row else row)
                (orders ?d3)"
      by (simp add: store_awb_def update_parcels_def update_order_def scenario_env_fields Let_def)
    also have "\<dots> = [mark_shipped ''MOCK1735689600000''
                         (set_weights scenario_weights confirmed7_paid)]"
      by (simp only: ch(2)) (simp add: i)
    finally show ?thesis by (simp only: d4)
  qed
  have r2: "map o_payment_status (orders (fst (snd ?r))) = [Some ''paid'']"
    "map o_paid_at (orders (fst (snd ?r))) = [Some ''2025-01-01T00:00:00.000Z'']"
    "map o_status (orders (fst (snd ?r))) = [Some ''processing'']"
    by (simp_all only: ords)
       (simp_all add: mark_shipped_def set_weights_def confirmed7_paid_def)
  have r3: "snd (snd ?r) = [WhatsAppPost ''919999999999'' (PaymentReceived 7 25000),
              FetchComputeWeights 7, FetchCreateShipment 7,
              WhatsAppPost ''919999999999'' (ShipmentCreated 7 ''MOCK1735689600000'')]"
    by (simp only: r fst_conv snd_conv ch(4))
       (simp add: sendWhatsAppMessage_def js_str_def strip_plus_def scenario_env_fields)
  from st sel r1 r2 r3 show ?thesis by blast
qed


subsection \<open>A second delivery of the same paid event\<close>

lemma keeps_payment_same: "orders d' = orders d \<Longrightarrow> keeps_payment d d'"
  unfolding keeps_payment_def by (rule exI [of _ "\<lambda>row. row"]) simp

lemma keeps_payment_trans:
  assumes "keeps_payment a b" and "keeps_payment b c"
  shows "keeps_payment a c"
proof -
  from assms obtain g h where
    g: "orders b = map g (orders a)"
       "\<forall>row. o_id (g row) = o_id row \<and> o_payment_id (g row) = o_payment_id row
              \<and> o_payment_status (g row) = o_payment_status row"
    and h: "orders c = map h (orders b)"
       "\<forall>row. o_id (h row) = o_id row \<and> o_payment_id (h row) = o_payment_id row
              \<and> o_payment_status (h row) = o_payment_status row"
    unfolding keeps_payment_def by blast
  show ?thesis
    unfolding keeps_payment_def
    by (rule exI [of _ "h \<circ> g"]) (simp add: g h)
qed

lemma keeps_payment_update_order:
  assumes "\<And>row. o_id (f row) = o_id row" and "\<And>row. o_payment_id (f row) = o_payment_id row"
    and "\<And>row. o_payment_status (f row) = o_payment_status row"
  shows "keeps_payment d (update_order order_id f d)"
  unfolding keeps_payment_def
  by (rule exI [of _ "\<lambda>row. if o_id row = order_id then f row else row"])
     (simp add: update_order_def assms)

lemma keeps_payment_set_weights: "keeps_payment d (update_order order_id (set_weights w) d)"
  by (rule keeps_payment_update_order) (simp_all add: set_weights_def)

lemma keeps_payment_mark_shipped: "keeps_payment d (update_order order_id (mark_shipped awb) d)"
  by (rule keeps_payment_update_order) (simp_all add: mark_shipped_def)

lemma keeps_payment_compute_weights: "keeps_payment d (snd (compute_weights e d order_id))"
proof -
  have a: "keeps_payment d ((update_order i (set_weights w) d)\<lparr> courier_parcels := ps \<rparr>)" for i w ps
    by (rule keeps_payment_trans [OF keeps_payment_set_weights [of d i w]])
       (simp add: keeps_payment_same)
  show ?thesis
    by (simp add: compute_weights_def Let_def keeps_payment_same keeps_payment_set_weights a)
qed

lemma keeps_payment_trigger_compute_weights:
  "keeps_payment d (trigger_compute_weights e site order_id d)"
  by (simp add: trigger_compute_weights_def keeps_payment_same keeps_payment_compute_weights)

lemma keeps_payment_store_awb: "keeps_payment d (store_awb e order_id awb d)"
proof -
  let ?d1 = "if fails e CS_update_order then d else update_order order_id (mark_shipped awb) d"
  have 1: "keeps_payment d ?d1"
    by (simp add: keeps_payment_same keeps_payment_mark_shipped)
  have 2: "keeps_payment ?d1 (store_awb e order_id awb d)"
    by (rule keeps_payment_same) (simp add: store_awb_def update_parcels_def Let_def)
  from 1 2 show ?thesis by (rule keeps_payment_trans)
qed

lemma keeps_payment_dispatch: "keeps_payment d (snd (dispatch e d order_id))"
proof -
  have a: "keeps_payment d (insert_event ev (store_awb e order_id awb d))" for ev awb
    by (rule keeps_payment_trans [OF keeps_payment_store_awb [of d e order_id awb]])
       (simp add: keeps_payment_same insert_event_def)
  show ?thesis
    by (simp add: dispatch_def Let_def keeps_payment_same keeps_payment_store_awb a
          split: option.splits)
qed

lemma keeps_payment_ensure_weights: "keeps_payment d (snd (ensure_weights e d order))"
proof (cases "compute_weights e d (Some (o_id order))")
  case (Pair res d1)
  then have "d1 = snd (compute_weights e d (Some (o_id order)))" by simp
  then have "keeps_payment d d1" by (simp add: keeps_payment_compute_weights)
  with Pair show ?thesis
    by (cases res) (simp_all add: ensure_weights_def keeps_payment_same)
qed

lemma keeps_payment_create_shipment: "keeps_payment d (snd (create_shipment e d order_id))"
proof (cases "maybeSingle (filter (\<lambda>row. o_id row = js_num order_id) (orders d))")
  case NoRow
  then show ?thesis by (simp add: create_shipment_def keeps_payment_same)
next
  case ManyRows
  then show ?thesis by (simp add: create_shipment_def keeps_payment_same)
next
  case (OneRow order)
  obtain err d1 where ew: "ensure_weights e d order = (err, d1)" by (cases "ensure_weights e d order")
  then have "d1 = snd (ensure_weights e d order)" by simp
  then have k1: "keeps_payment d d1" by (simp add: keeps_payment_ensure_weights)
  have k2: "keeps_payment d1 (snd (dispatch e d1 (js_num order_id)))"
    by (rule keeps_payment_dispatch)
  from k1 k2 have k3: "keeps_payment d (snd (dispatch e d1 (js_num order_id)))"
    by (rule keeps_payment_trans)
  show ?thesis
    using OneRow ew k1 k3
    by (cases err) (simp_all add: create_shipment_def keeps_payment_same)
qed

lemma keeps_payment_trigger_create_shipment:
  "keeps_payment d (snd (trigger_create_shipment e order_id d))"
proof (cases "create_shipment e d (Some order_id)")
  case (Pair res d1)
  then have "d1 = snd (create_shipment e d (Some order_id))" by simp
  then have "keeps_payment d d1" by (simp add: keeps_payment_create_shipment)
  with Pair show ?thesis
    by (cases res) (simp_all add: trigger_create_shipment_def keeps_payment_same)
qed

lemma maybeSingle_OneRow: "maybeSingle xs = OneRow x \<longleftrightarrow> xs = [x]"
  by (cases xs rule: maybeSingle.cases) simp_all

lemma select_by_payment_id_keeps:
  assumes "keeps_payment d d'" and "select_by_payment_id d ref = OneRow row"
  shows "\<exists>row'. select_by_payment_id d' ref = OneRow row' \<and> o_id row' = o_id row
                \<and> o_payment_status row' = o_payment_status row"
proof -
  from assms(1) obtain g where
    g: "orders d' = map g (orders d)"
       "\<forall>row. o_id (g row) = o_id row \<and> o_payment_id (g row) = o_payment_id row
              \<and> o_payment_status (g row) = o_payment_status row"
    unfolding keeps_payment_def by blast
  let ?P = "\<lambda>row. ref \<noteq> None \<and> o_payment_id row = ref"
  have "?P \<circ> g = ?P" by (simp add: fun_eq_iff g(2))
  then have "filter ?P (map g rows) = map g (filter ?P rows)" for rows
    by (simp only: filter_map)
  moreover from assms(2) have "filter ?P (orders d) = [row]"
    by (simp add: select_by_payment_id_def maybeSingle_OneRow)
  ultimately have "select_by_payment_id d' ref = OneRow (g row)"
    by (simp add: select_by_payment_id_def g(1))
  with g(2) show ?thesis by simp
qed

lemma select_by_payment_id_mark_paid:
  assumes "select_by_payment_id d ref = OneRow row"
  shows "select_by_payment_id (update_order (o_id row) (mark_paid paid_at) d) ref
           = OneRow (mark_paid paid_at row)"
proof -
  let ?P = "\<lambda>row. ref \<noteq> None \<and> o_payment_id row = ref"
  let ?g = "\<lambda>r. if o_id r = o_id row then mark_paid paid_at r else r"
  have "?P \<circ> ?g = ?P" by (simp add: fun_eq_iff mark_paid_def)
  then have "filter ?P (map ?g rows) = map ?g (filter ?P rows)" for rows
    by (simp only: filter_map)
  moreover from assms have "filter ?P (orders d) = [row]"
    by (simp add: select_by_payment_id_def maybeSingle_OneRow)
  ultimately show ?thesis
    by (simp add: select_by_payment_id_def update_order_def)
qed

text \<open>
  The second half of C1: when a paid event for a payment link has been processed and its
  update was written, a second delivery of the same event finds the order paid, writes
  the audit record and does nothing else, whatever the weight calculator and the
  dispatcher did in between.
\<close>

lemma second_delivery_is_duplicate:
  assumes "ev_event eventJson = Some ''payment_link.paid''"
    and "ev_payment_link_entity eventJson = Some linkEntity"
    and "\<not> fails e RZ_select_by_link"
    and "select_by_payment_id d (js_str (le_id linkEntity)) = OneRow row"
    and "o_payment_status row \<noteq> Some ''paid''"
    and "\<not> fails e RZ_update_paid"
    and "d1 = fst (snd (process_event e d eventJson))"
  shows "snd (snd (process_event e d eventJson))
           \<noteq> []
         \<and> process_event e d1 eventJson
           = (Inr AlreadyPaid, logWebhook e (Some (o_id row)) eventJson d1, [])"
proof -
  let ?d0 = "update_order (o_id row) (mark_paid (now e)) d"
  let ?d2 = "logWebhook e (Some (o_id row)) eventJson ?d0"
  let ?d3 = "trigger_compute_weights e RZ_fetch_compute_weights (o_id row) ?d2"
  have first: "process_event e d eventJson
                 = confirm_link_payment e d eventJson (select_cols row)"
    by (rule paid_event_on_unpaid_order [OF assms(1-5)])
  have id: "sel_id (select_cols row) = o_id row" by (simp add: select_cols_def)
  have d1: "d1 = snd (trigger_create_shipment e (o_id row) ?d3)"
    by (simp add: assms(7) first confirm_link_payment_def Let_def id assms(6))
  have fx: "snd (snd (process_event e d eventJson)) \<noteq> []"
    by (simp add: first confirm_link_payment_def Let_def)
  have s0: "select_by_payment_id ?d0 (js_str (le_id linkEntity)) = OneRow (mark_paid (now e) row)"
    by (rule select_by_payment_id_mark_paid [OF assms(4)])
  have k: "keeps_payment ?d0 d1"
    unfolding d1
    by (rule keeps_payment_trans [OF _ keeps_payment_trigger_create_shipment],
        rule keeps_payment_trans [OF _ keeps_payment_trigger_compute_weights],
        rule keeps_payment_same) simp
  from select_by_payment_id_keeps [OF k s0] obtain row' where
    r': "select_by_payment_id d1 (js_str (le_id linkEntity)) = OneRow row'"
        "o_id row' = o_id (mark_paid (now e) row)"
        "o_payment_status row' = o_payment_status (mark_paid (now e) row)"
    by blast
  then have p: "o_payment_status row' = Some ''paid''" and i: "o_id row' = o_id row"
    by (simp_all add: mark_paid_def)
  from paid_event_on_paid_order [OF assms(1-3) r'(1) p] i fx show ?thesis by simp
qed

section \<open>Properties of the conversation engine\<close>

lemma log_message_tables [simp]:
  "whatsapp_conversations (log_message e p sid d) = whatsapp_conversations d"
  "schools (log_message e p sid d) = schools d"
  "classes (log_message e p sid d) = classes d"
  "groups (log_message e p sid d) = groups d"
  "class_group_assignments (log_message e p sid d) = class_group_assignments d"
  "items (log_message e p sid d) = items d"
  "orders (log_message e p sid d) = orders d"
  "order_items (log_message e p sid d) = order_items d"
  by (simp_all add: log_message_def)

lemma load_conversation_log_message [simp]:
  "load_conversation e (log_message e' p sid d) phone = load_conversation e d phone"
  by (simp add: load_conversation_def)

lemma valid_input_log_message [simp]:
  "valid_input e (log_message e' p sid d) conversation body = valid_input e d conversation body"
  by (simp add: valid_input_def wa_select_school_def select_school_def available_groups_def)












lemma normalize_phone_example: "normalize_phone ''+919999999999'' = ''919999999999''"
  by (simp add: normalize_phone_def strip_plus_def string_defs)

lemma trim_examples: "trim ''3'' = ''3''" "trim ''1'' = ''1''" "trim ''START'' = ''START''"
  by (simp_all add: trim_def is_space_def)

lemma conv_db_state:
  "state_of (load_conversation scenario_env conv_db ''919999999999'') = ''AWAIT_DELIVERY''"
  by (simp add: load_conversation_def conv_db_def state_of_def scenario_env_def no_faults_def)





text \<open>A valid choice of delivery, on the other hand, is saved with the next state.\<close>

lemma delivery_choice_advances:
  "map_option cv_state
     (whatsapp_conversations
        (fst (snd (whatsapp_webhook scenario_env conv_db
                     (WaMessage ''+919999999999'' ''1'' ''wamid.3''))))
        ''919999999999'') = Some ''AWAIT_CONFIRM''"
proof -
  have up: "toUpperCase ''1'' \<noteq> ''START''" by (simp add: toUpperCase_def)
  have nf: "\<not> fails scenario_env WA_upsert_conversation"
    by (simp add: scenario_env_def no_faults_def)
  have "handle_message scenario_env conv_db ''+919999999999'' ''1'' ''wamid.3''
          = state_machine scenario_env
              (log_message scenario_env (Some ''919999999999'') (js_str (Some ''wamid.3'')) conv_db)
              ''919999999999'' (load_conversation scenario_env conv_db ''919999999999'') ''1''"
    by (simp add: handle_message_def Let_def trim_examples up normalize_phone_example)
  also have "\<dots> = await_delivery scenario_env
              (log_message scenario_env (Some ''919999999999'') (js_str (Some ''wamid.3'')) conv_db)
              ''919999999999'' (load_conversation scenario_env conv_db ''919999999999'') ''1''"
    by (simp add: state_machine_def conv_db_state)
  finally show ?thesis
    by (simp add: whatsapp_webhook_def await_delivery_def saveState_def nf Let_def)
qed

end
